theory Spec2Isabelle
  imports Complex_Main
begin

section \<open>Data model\<close>

text \<open>
  The entities of \<^verbatim>\<open>models/entities.go\<close> and the configuration and result set of
  \<^verbatim>\<open>generator/config.go\<close>.  Go's \<^verbatim>\<open>float64\<close> is modelled by \<^typ>\<open>real\<close>:
  rounding, infinities and NaN are not represented, and every statement below about a
  \<^verbatim>\<open>float64\<close> is a statement about the exact value of the expression the source
  computes.  \<^verbatim>\<open>int32\<close>, \<^verbatim>\<open>int\<close> (64 bits) and \<^verbatim>\<open>int64\<close> are modelled by
  \<^typ>\<open>int\<close>, with the two's-complement wrap-around written out at every arithmetic
  operation whose operands are not bounded by the loop that produces them.
\<close>

record Star =
  ID :: string
  Name :: string
  SpectralType :: string
  Mass :: real
  Radius :: real
  Temperature :: int

record Planet =
  ID :: string
  Name :: string
  OrbitalPeriod :: real
  SemiMajorAxis :: real
  Eccentricity :: real
  Mass :: real
  Radius :: real
  Atmosphere :: string
  SurfaceTemp :: int
  HasRings :: bool
  HasMoons :: bool
  DiscoveryYear :: int
  StarID :: string

record Exoplanet =
  ID :: string
  Name :: string
  OrbitalPeriod :: real
  SemiMajorAxis :: real
  Eccentricity :: real
  Mass :: real
  Radius :: real
  DetectionMethod :: string
  HostDistance :: real
  SurfaceTemp :: int
  DiscoveryYear :: int
  StarID :: string

record Config =
  NumStars :: int
  PlanetsPerStar :: int
  ExoPerStar :: int
  Seed :: int

record GeneratedData =
  Stars :: "Star list"
  Planets :: "Planet list"
  Exoplanets :: "Exoplanet list"

text \<open>A run-time panic of the Go program, with its message.\<close>

datatype panic = Panic string

section \<open>Machine integers\<close>

definition int32_wrap :: "int \<Rightarrow> int" where
  "int32_wrap x = (x + 2 ^ 31) mod 2 ^ 32 - 2 ^ 31"

definition int64_wrap :: "int \<Rightarrow> int" where
  "int64_wrap x = (x + 2 ^ 63) mod 2 ^ 64 - 2 ^ 63"


text \<open>
  The conversion \<^verbatim>\<open>int32(f)\<close> of a \<^verbatim>\<open>float64\<close>: the fraction is discarded
  (truncation towards zero).  For a value that \<^verbatim>\<open>int32\<close> cannot hold the Go
  specification leaves the result to the implementation; the value written here is the
  one amd64 yields.
\<close>

definition int32_of_float64 :: "real \<Rightarrow> int" where
  "int32_of_float64 x =
     (let t = (if 0 \<le> x then \<lfloor>x\<rfloor> else \<lceil>x\<rceil>)
      in if - (2 ^ 31) \<le> t \<and> t < 2 ^ 31 then t else - (2 ^ 31))"

section \<open>The libraries the generator calls\<close>

text \<open>
  \<^verbatim>\<open>math/rand\<close> and \<^verbatim>\<open>github.com/google/uuid\<close> are not part of the repository.
  They are parameters of the model: \<open>'r\<close> is the state of a \<^verbatim>\<open>*rand.Rand\<close>,
  \<open>'u\<close> the state of the entropy source behind \<^verbatim>\<open>uuid.New()\<close>.
  \<open>rand_New seed\<close> is \<^verbatim>\<open>rand.New(rand.NewSource(seed))\<close>; the three
  drawing functions return the value drawn and the advanced generator, and
  \<open>uuid_New\<close> returns the string of a new identifier and the advanced entropy
  source.  The functions are total: a draw ends, and reading entropy does not fail.
\<close>

record ('r, 'u) lib =
  rand_New :: "int \<Rightarrow> 'r"
  rand_Float64 :: "'r \<Rightarrow> real \<times> 'r"
  rand_Intn :: "'r \<Rightarrow> int \<Rightarrow> int \<times> 'r"
  rand_Int31n :: "'r \<Rightarrow> int \<Rightarrow> int \<times> 'r"
  uuid_New :: "'u \<Rightarrow> string \<times> 'u"

text \<open>
  What the documentation of \<^verbatim>\<open>math/rand\<close> promises: \<^verbatim>\<open>Float64\<close> returns a
  number in the half-open interval \<open>[0.0, 1.0)\<close>, \<^verbatim>\<open>Intn(n)\<close> and
  \<^verbatim>\<open>Int31n(n)\<close> a number in \<open>[0, n)\<close> when \<open>n > 0\<close>.
\<close>

definition rand_contract :: "('r, 'u) lib \<Rightarrow> bool" where
  "rand_contract L =
     ((\<forall>r. 0 \<le> fst (rand_Float64 L r) \<and> fst (rand_Float64 L r) < 1) \<and>
      (\<forall>r n. 0 < n \<longrightarrow> 0 \<le> fst (rand_Intn L r n) \<and> fst (rand_Intn L r n) < n) \<and>
      (\<forall>r n. 0 < n \<longrightarrow> 0 \<le> fst (rand_Int31n L r n) \<and> fst (rand_Int31n L r n) < n))"

text \<open>
  A computation of the generator threads the pair of both library states and either
  panics or returns a value with the new states.
\<close>

type_synonym ('r, 'u, 'a) gen = "'r \<times> 'u \<Rightarrow> panic + ('a \<times> ('r \<times> 'u))"

definition and_then :: "('r, 'u, 'a) gen \<Rightarrow> ('a \<Rightarrow> ('r, 'u, 'b) gen) \<Rightarrow> ('r, 'u, 'b) gen" where
  "and_then m f s = (case m s of Inl e \<Rightarrow> Inl e | Inr (a, s') \<Rightarrow> f a s')"

definition ret :: "'a \<Rightarrow> ('r, 'u, 'a) gen" where
  "ret a s = Inr (a, s)"

definition Float64 :: "('r, 'u) lib \<Rightarrow> ('r, 'u, real) gen" where
  "Float64 L s = (case rand_Float64 L (fst s) of (f, r') \<Rightarrow> Inr (f, (r', snd s)))"

text \<open>\<^verbatim>\<open>Intn\<close> and \<^verbatim>\<open>Int31n\<close> panic when \<open>n \<le> 0\<close>.\<close>

definition Intn :: "('r, 'u) lib \<Rightarrow> int \<Rightarrow> ('r, 'u, int) gen" where
  "Intn L n s =
     (if n \<le> 0 then Inl (Panic ''invalid argument to Intn'')
      else case rand_Intn L (fst s) n of (k, r') \<Rightarrow> Inr (k, (r', snd s)))"

definition Int31n :: "('r, 'u) lib \<Rightarrow> int \<Rightarrow> ('r, 'u, int) gen" where
  "Int31n L n s =
     (if n \<le> 0 then Inl (Panic ''invalid argument to Int31n'')
      else case rand_Int31n L (fst s) n of (k, r') \<Rightarrow> Inr (k, (r', snd s)))"

text \<open>\<^verbatim>\<open>uuid.New().String()\<close>\<close>

definition uuid_New_String :: "('r, 'u) lib \<Rightarrow> ('r, 'u, string) gen" where
  "uuid_New_String L s = (case uuid_New L (snd s) of (i, u') \<Rightarrow> Inr (i, (fst s, u')))"

section \<open>Formatting and indexing\<close>

definition digit_char :: "nat \<Rightarrow> char" where
  "digit_char n = ''0123456789'' ! n"

fun digits_nat :: "nat \<Rightarrow> string" where
  "digits_nat n =
     (if n < 10 then [digit_char n] else digits_nat (n div 10) @ [digit_char (n mod 10)])"

declare digits_nat.simps [simp del]

text \<open>The verb \<^verbatim>\<open>%d\<close> of \<^verbatim>\<open>fmt.Sprintf\<close>.\<close>

definition Sprintf_d :: "int \<Rightarrow> string" where
  "Sprintf_d i = (if i < 0 then CHR ''-'' # digits_nat (nat (- i)) else digits_nat (nat i))"

text \<open>\<^verbatim>\<open>s[0]\<close> on a string and \<^verbatim>\<open>xs[i]\<close> on a slice panic out of range.\<close>

definition byte0 :: "string \<Rightarrow> panic + char" where
  "byte0 s = (case s of [] \<Rightarrow> Inl (Panic ''index out of range'') | c # _ \<Rightarrow> Inr c)"

definition index :: "'a list \<Rightarrow> int \<Rightarrow> panic + 'a" where
  "index xs i =
     (if 0 \<le> i \<and> i < int (length xs) then Inr (xs ! nat i)
      else Inl (Panic ''index out of range''))"

definition lift :: "panic + 'a \<Rightarrow> ('r, 'u, 'a) gen" where
  "lift x s = (case x of Inl e \<Rightarrow> Inl e | Inr a \<Rightarrow> Inr (a, s))"

section \<open>Tables of the generator\<close>

record SpectralClass =
  class_name :: string
  massRange :: "real \<times> real"
  radiusRange :: "real \<times> real"
  tempRange :: "int \<times> int"

definition spectralTypes :: "SpectralClass list" where
  "spectralTypes =
     [\<lparr>class_name = ''O'', massRange = (16.0, 90.0), radiusRange = (6.6, 15.0), tempRange = (30000, 50000)\<rparr>,
      \<lparr>class_name = ''B'', massRange = (2.1, 16.0), radiusRange = (1.8, 6.6), tempRange = (10000, 30000)\<rparr>,
      \<lparr>class_name = ''A'', massRange = (1.4, 2.1), radiusRange = (1.4, 1.8), tempRange = (7500, 10000)\<rparr>,
      \<lparr>class_name = ''F'', massRange = (1.04, 1.4), radiusRange = (1.15, 1.4), tempRange = (6000, 7500)\<rparr>,
      \<lparr>class_name = ''G'', massRange = (0.8, 1.04), radiusRange = (0.96, 1.15), tempRange = (5200, 6000)\<rparr>,
      \<lparr>class_name = ''K'', massRange = (0.45, 0.8), radiusRange = (0.7, 0.96), tempRange = (3700, 5200)\<rparr>,
      \<lparr>class_name = ''M'', massRange = (0.08, 0.45), radiusRange = (0.1, 0.7), tempRange = (2400, 3700)\<rparr>]"

definition atmosphereTypes :: "string list" where
  "atmosphereTypes =
     [''H2/He dominant'', ''N2/O2 dominant'', ''CO2 dominant'', ''Thin atmosphere'',
      ''No atmosphere'', ''H2/He with methane'', ''Sulfuric compounds'', ''Water vapor rich'']"

definition detectionMethods :: "string list" where
  "detectionMethods =
     [''Transit'', ''Radial Velocity'', ''Direct Imaging'', ''Gravitational Microlensing'',
      ''Astrometry'', ''Transit Timing Variation'']"

section \<open>Sampling routines\<close>

definition randFloat :: "('r, 'u) lib \<Rightarrow> real \<Rightarrow> real \<Rightarrow> ('r, 'u, real) gen" where
  "randFloat L mn mx = and_then (Float64 L) (\<lambda>f. ret (mn + f * (mx - mn)))"

definition randInt :: "('r, 'u) lib \<Rightarrow> int \<Rightarrow> int \<Rightarrow> ('r, 'u, int) gen" where
  "randInt L mn mx =
     and_then (Int31n L (int32_wrap (int32_wrap (mx - mn) + 1))) (\<lambda>k. ret (int32_wrap (mn + k)))"

definition weights :: "real list" where
  "weights = [0.00003, 0.13, 2.0, 3.0, 7.6, 12.1, 76.45]"

text \<open>The first loop of \<^verbatim>\<open>generateSpectralType\<close>: \<^verbatim>\<open>total += w\<close> from \<open>0.0\<close>
  (\<open>tot\<close> stands for \<^verbatim>\<open>total\<close>, a constant of HOL).\<close>

fun sum_weights :: "real list \<Rightarrow> real \<Rightarrow> real" where
  "sum_weights [] tot = tot"
| "sum_weights (w # ws) tot = sum_weights ws (tot + w)"

text \<open>
  The second loop: \<open>i\<close> is the index of the weight at the head, \<open>cumulative\<close> the sum
  of the weights before it.  The loop stops at the first weight that brings the sum to
  \<open>val\<close> or beyond; when none does, \<^verbatim>\<open>classIdx\<close> keeps its initial value \<open>0\<close>.
\<close>

fun pick_class :: "real list \<Rightarrow> real \<Rightarrow> real \<Rightarrow> int \<Rightarrow> int" where
  "pick_class [] val cumulative i = 0"
| "pick_class (w # ws) val cumulative i =
     (if val \<le> cumulative + w then i else pick_class ws val (cumulative + w) (i + 1))"

definition generateSpectralType :: "('r, 'u) lib \<Rightarrow> ('r, 'u, string) gen" where
  "generateSpectralType L =
     and_then (Float64 L) (\<lambda>f.
       let tot = sum_weights weights 0;
           val = f * tot;
           classIdx = pick_class weights val 0 0
       in and_then (lift (index spectralTypes classIdx)) (\<lambda>st.
          and_then (Intn L 10) (\<lambda>subclass.
            ret (class_name st @ Sprintf_d subclass @ ''V''))))"

text \<open>
  The search loop of \<^verbatim>\<open>generateStar\<close>: the index of the first table entry whose
  class letter is \<open>classChar\<close>, and \<open>0\<close> when there is none.
\<close>

fun find_class :: "SpectralClass list \<Rightarrow> char \<Rightarrow> int \<Rightarrow> panic + int" where
  "find_class [] classChar i = Inr 0"
| "find_class (st # sts) classChar i =
     (case byte0 (class_name st) of
        Inl e \<Rightarrow> Inl e
      | Inr c \<Rightarrow> if c = classChar then Inr i else find_class sts classChar (i + 1))"

definition generateStar :: "('r, 'u) lib \<Rightarrow> int \<Rightarrow> ('r, 'u, Star) gen" where
  "generateStar L idx =
     and_then (generateSpectralType L) (\<lambda>spectralType.
     and_then (lift (byte0 spectralType)) (\<lambda>classChar.
     and_then (lift (find_class spectralTypes classChar 0)) (\<lambda>classIdx.
     and_then (lift (index spectralTypes classIdx)) (\<lambda>st.
     and_then (uuid_New_String L) (\<lambda>uuid.
     and_then (randFloat L (fst (massRange st)) (snd (massRange st))) (\<lambda>mass.
     and_then (randFloat L (fst (radiusRange st)) (snd (radiusRange st))) (\<lambda>radius.
     and_then (randInt L (fst (tempRange st)) (snd (tempRange st))) (\<lambda>temperature.
       ret \<lparr>Star.ID = uuid,
            Star.Name = ''Star-'' @ Sprintf_d idx,
            SpectralType = spectralType,
            Star.Mass = mass,
            Star.Radius = radius,
            Temperature = temperature\<rparr>))))))))"

text \<open>
  \<^verbatim>\<open>generatePlanet\<close>.  The draws are made in the order of the source: the axis, the
  planet type, mass and radius, and then, field by field of the struct literal, the
  identifier, the eccentricity, the atmosphere, the two flags and the discovery year.
  Where the source would divide by a mass or an axis of zero the quotient of the model is
  \<open>0\<close>; no star that \<^verbatim>\<open>generateStar\<close> returns and no axis drawn here is zero.
\<close>

definition generatePlanet :: "('r, 'u) lib \<Rightarrow> Star \<Rightarrow> int \<Rightarrow> ('r, 'u, Planet) gen" where
  "generatePlanet L star idx =
     and_then (randFloat L 0.05 50.0) (\<lambda>semiMajorAxis.
       let orbitalPeriod =
             365.25 * sqrt (semiMajorAxis * semiMajorAxis * semiMajorAxis / Star.Mass star)
       in
     and_then (Float64 L) (\<lambda>planetType.
     and_then
       (if planetType < 0.3 then
          and_then (randFloat L 0.1 5.0) (\<lambda>mass.
          and_then (randFloat L 0.3 2.0) (\<lambda>radius. ret (mass, radius)))
        else if planetType < 0.6 then
          and_then (randFloat L 5.0 20.0) (\<lambda>mass.
          and_then (randFloat L 2.0 4.0) (\<lambda>radius. ret (mass, radius)))
        else
          and_then (randFloat L 20.0 1000.0) (\<lambda>mass.
          and_then (randFloat L 4.0 15.0) (\<lambda>radius. ret (mass, radius))))
       (\<lambda>(mass, radius).
       let surfaceTemp =
             int32_of_float64
               (real_of_int (Temperature star) * sqrt (Star.Radius star / (2.0 * semiMajorAxis)))
       in
     and_then (uuid_New_String L) (\<lambda>uuid.
     and_then (randFloat L 0.0 0.3) (\<lambda>eccentricity.
     and_then (Intn L (int (length atmosphereTypes))) (\<lambda>a.
     and_then (lift (index atmosphereTypes a)) (\<lambda>atmosphere.
     and_then (Float64 L) (\<lambda>rings.
     and_then (Float64 L) (\<lambda>moons.
     and_then (randInt L 1990 2024) (\<lambda>discoveryYear.
       ret \<lparr>Planet.ID = uuid,
            Planet.Name = Star.Name star @ ''-Planet-'' @ Sprintf_d idx,
            Planet.OrbitalPeriod = orbitalPeriod,
            Planet.SemiMajorAxis = semiMajorAxis,
            Planet.Eccentricity = eccentricity,
            Planet.Mass = mass,
            Planet.Radius = radius,
            Atmosphere = atmosphere,
            Planet.SurfaceTemp = surfaceTemp,
            HasRings = (rings < 0.2),
            HasMoons = (moons < 0.6),
            Planet.DiscoveryYear = discoveryYear,
            Planet.StarID = Star.ID star\<rparr>))))))))))"

definition generateExoplanet :: "('r, 'u) lib \<Rightarrow> Star \<Rightarrow> int \<Rightarrow> ('r, 'u, Exoplanet) gen" where
  "generateExoplanet L star idx =
     and_then (randFloat L 0.01 5.0) (\<lambda>semiMajorAxis.
       let orbitalPeriod =
             365.25 * sqrt (semiMajorAxis * semiMajorAxis * semiMajorAxis / Star.Mass star)
       in
     and_then (randFloat L 0.5 500.0) (\<lambda>mass.
     and_then (randFloat L 0.5 12.0) (\<lambda>radius.
       let surfaceTemp =
             int32_of_float64
               (real_of_int (Temperature star) * sqrt (Star.Radius star / (2.0 * semiMajorAxis)))
       in
     and_then (randFloat L 10.0 10000.0) (\<lambda>hostDistance.
     and_then (uuid_New_String L) (\<lambda>uuid.
     and_then (randFloat L 0.0 0.5) (\<lambda>eccentricity.
     and_then (Intn L (int (length detectionMethods))) (\<lambda>m.
     and_then (lift (index detectionMethods m)) (\<lambda>detectionMethod.
     and_then (randInt L 1990 2024) (\<lambda>discoveryYear.
       ret \<lparr>Exoplanet.ID = uuid,
            Exoplanet.Name = Star.Name star @ ''-Exo-'' @ Sprintf_d idx,
            Exoplanet.OrbitalPeriod = orbitalPeriod,
            Exoplanet.SemiMajorAxis = semiMajorAxis,
            Exoplanet.Eccentricity = eccentricity,
            Exoplanet.Mass = mass,
            Exoplanet.Radius = radius,
            DetectionMethod = detectionMethod,
            HostDistance = hostDistance,
            Exoplanet.SurfaceTemp = surfaceTemp,
            Exoplanet.DiscoveryYear = discoveryYear,
            Exoplanet.StarID = Star.ID star\<rparr>)))))))))"

section \<open>The population assembler\<close>

text \<open>
  The two inner loops of \<^verbatim>\<open>GenerateAll\<close>; \<open>planets\<close> is \<^verbatim>\<open>data.Planets\<close> and
  \<open>exoplanets\<close> is \<^verbatim>\<open>data.Exoplanets\<close>.  The counter stays below its bound, so
  \<^verbatim>\<open>j+1\<close> does not overflow.
\<close>

function planets_loop ::
  "('r, 'u) lib \<Rightarrow> Star \<Rightarrow> int \<Rightarrow> int \<Rightarrow> Planet list \<Rightarrow> ('r, 'u, Planet list) gen" where
  "planets_loop L star numPlanets j planets s =
     (if j < numPlanets then
        (case generatePlanet L star (j + 1) s of
           Inl e \<Rightarrow> Inl e
         | Inr (planet, s') \<Rightarrow> planets_loop L star numPlanets (j + 1) (planets @ [planet]) s')
      else Inr (planets, s))"
  by pat_completeness auto
termination
  by (relation "measure (\<lambda>(L, star, numPlanets, j, planets, s). nat (numPlanets - j))") auto

declare planets_loop.simps [simp del]

function exoplanets_loop ::
  "('r, 'u) lib \<Rightarrow> Star \<Rightarrow> int \<Rightarrow> int \<Rightarrow> Exoplanet list \<Rightarrow> ('r, 'u, Exoplanet list) gen" where
  "exoplanets_loop L star numExoplanets j exoplanets s =
     (if j < numExoplanets then
        (case generateExoplanet L star (j + 1) s of
           Inl e \<Rightarrow> Inl e
         | Inr (exoplanet, s') \<Rightarrow>
             exoplanets_loop L star numExoplanets (j + 1) (exoplanets @ [exoplanet]) s')
      else Inr (exoplanets, s))"
  by pat_completeness auto
termination
  by (relation "measure (\<lambda>(L, star, numExoplanets, j, exoplanets, s). nat (numExoplanets - j))") auto

declare exoplanets_loop.simps [simp del]

text \<open>
  One pass of the outer loop for the star of ordinal \<open>i + 1\<close>: the star, the count of
  its planets, the planets, the count of its exoplanets, the exoplanets.  The sums
  \<^verbatim>\<open>cfg.PlanetsPerStar + 1\<close> and \<^verbatim>\<open>cfg.ExoPerStar + 1\<close> are sums of Go's
  \<^verbatim>\<open>int\<close> (64 bits) and wrap around.
\<close>

definition star_step :: "('r, 'u) lib \<Rightarrow> Config \<Rightarrow> int \<Rightarrow> GeneratedData \<Rightarrow> ('r, 'u, GeneratedData) gen" where
  "star_step L cfg i data =
     and_then (generateStar L (i + 1)) (\<lambda>star.
     and_then (Intn L (int64_wrap (PlanetsPerStar cfg + 1))) (\<lambda>numPlanets.
     and_then (planets_loop L star numPlanets 0 (Planets data)) (\<lambda>planets.
     and_then (Intn L (int64_wrap (ExoPerStar cfg + 1))) (\<lambda>numExoplanets.
     and_then (exoplanets_loop L star numExoplanets 0 (Exoplanets data)) (\<lambda>exoplanets.
       ret \<lparr>Stars = Stars data @ [star], Planets = planets, Exoplanets = exoplanets\<rparr>)))))"

function stars_loop ::
  "('r, 'u) lib \<Rightarrow> Config \<Rightarrow> int \<Rightarrow> GeneratedData \<Rightarrow> ('r, 'u, GeneratedData) gen" where
  "stars_loop L cfg i data s =
     (if i < NumStars cfg then
        (case star_step L cfg i data s of
           Inl e \<Rightarrow> Inl e
         | Inr (data', s') \<Rightarrow> stars_loop L cfg (i + 1) data' s')
      else Inr (data, s))"
  by pat_completeness auto
termination
  by (relation "measure (\<lambda>(L, cfg, i, data, s). nat (NumStars cfg - i))") auto

declare stars_loop.simps [simp del]

text \<open>
  \<^verbatim>\<open>GenerateAll\<close>.  The argument \<open>u\<close> is the state in which the call finds the
  entropy source of \<^verbatim>\<open>uuid.New()\<close>; the generator \<open>r\<close> is made from the seed alone.
  \<^verbatim>\<open>make([]models.Star, 0, cfg.NumStars)\<close> panics when the capacity is negative.
  Memory is unbounded in the model: a capacity that is not negative is granted.
\<close>

definition GenerateAll :: "('r, 'u) lib \<Rightarrow> 'u \<Rightarrow> Config \<Rightarrow> panic + GeneratedData" where
  "GenerateAll L u cfg =
     (let r = rand_New L (Seed cfg) in
      if NumStars cfg < 0 then Inl (Panic ''makeslice: cap out of range'')
      else
        (case stars_loop L cfg 0 \<lparr>Stars = [], Planets = [], Exoplanets = []\<rparr> (r, u) of
           Inl e \<Rightarrow> Inl e
         | Inr (data, s) \<Rightarrow> Inr data))"

section \<open>A scripted library\<close>

text \<open>
  A library whose draws are read off two lists, one for \<^verbatim>\<open>Float64\<close> and one for
  \<^verbatim>\<open>Intn\<close> and \<^verbatim>\<open>Int31n\<close>; an exhausted list yields \<open>0\<close>.  Every draw is
  brought into the range the documentation promises.  Identifiers are the decimal
  numerals of a counter.  It evaluates the generator on concrete inputs.
\<close>

definition pop_float :: "real list \<times> int list \<Rightarrow> real \<times> (real list \<times> int list)" where
  "pop_float r =
     (case fst r of
        [] \<Rightarrow> (0, r)
      | f # fs \<Rightarrow> (if 0 \<le> f \<and> f < 1 then f else 0, (fs, snd r)))"

definition pop_int :: "real list \<times> int list \<Rightarrow> int \<Rightarrow> int \<times> (real list \<times> int list)" where
  "pop_int r n =
     (case snd r of
        [] \<Rightarrow> (0, r)
      | k # ks \<Rightarrow> (k mod n, (fst r, ks)))"

definition scripted :: "real list \<Rightarrow> int list \<Rightarrow> (real list \<times> int list, nat) lib" where
  "scripted fs ks =
     \<lparr>rand_New = (\<lambda>seed. (fs, ks)),
      rand_Float64 = pop_float,
      rand_Intn = pop_int,
      rand_Int31n = pop_int,
      uuid_New = (\<lambda>n. (digits_nat n, Suc n))\<rparr>"

section \<open>Postconditions\<close>

text \<open>
  \<open>post m s Q\<close>: from the state \<open>s\<close> the computation \<open>m\<close> returns, and \<open>Q\<close> holds
  of what it returns.  \<open>ppost m s Q\<close>: if \<open>m\<close> returns from \<open>s\<close>, then \<open>Q\<close> holds
  of what it returns.
\<close>

definition post :: "('r, 'u, 'a) gen \<Rightarrow> 'r \<times> 'u \<Rightarrow> ('a \<Rightarrow> 'r \<times> 'u \<Rightarrow> bool) \<Rightarrow> bool" where
  "post m s Q = (case m s of Inl e \<Rightarrow> False | Inr (a, s') \<Rightarrow> Q a s')"

definition ppost :: "('r, 'u, 'a) gen \<Rightarrow> 'r \<times> 'u \<Rightarrow> ('a \<Rightarrow> 'r \<times> 'u \<Rightarrow> bool) \<Rightarrow> bool" where
  "ppost m s Q = (case m s of Inl e \<Rightarrow> True | Inr (a, s') \<Rightarrow> Q a s')"

text \<open>The bounds every row of the table of spectral classes satisfies.\<close>

definition row_ok :: "SpectralClass \<Rightarrow> bool" where
  "row_ok st =
     (0.08 \<le> fst (massRange st) \<and> fst (massRange st) < snd (massRange st) \<and>
      snd (massRange st) \<le> 90 \<and>
      0.1 \<le> fst (radiusRange st) \<and> fst (radiusRange st) < snd (radiusRange st) \<and>
      snd (radiusRange st) \<le> 15 \<and>
      2400 \<le> fst (tempRange st) \<and> fst (tempRange st) \<le> snd (tempRange st) \<and>
      snd (tempRange st) \<le> 50000)"

definition star_ok :: "Star \<Rightarrow> bool" where
  "star_ok star =
     (0.08 \<le> Star.Mass star \<and> Star.Mass star < 90 \<and>
      0.1 \<le> Star.Radius star \<and> Star.Radius star < 15 \<and>
      2400 \<le> Temperature star \<and> Temperature star \<le> 50000)"

text \<open>
  What \<^verbatim>\<open>generatePlanet\<close> and \<^verbatim>\<open>generateExoplanet\<close> establish between the star
  they are given and the body they return: the reference, the two derived quantities
  and the ranges of the sampled ones.
\<close>

definition planet_of :: "Star \<Rightarrow> Planet \<Rightarrow> bool" where
  "planet_of star p =
     (Planet.StarID p = Star.ID star \<and>
      Planet.OrbitalPeriod p =
        365.25 * sqrt (Planet.SemiMajorAxis p * Planet.SemiMajorAxis p * Planet.SemiMajorAxis p
                       / Star.Mass star) \<and>
      Planet.SurfaceTemp p =
        int32_of_float64 (real_of_int (Temperature star)
                          * sqrt (Star.Radius star / (2.0 * Planet.SemiMajorAxis p))) \<and>
      0.05 \<le> Planet.SemiMajorAxis p \<and> Planet.SemiMajorAxis p < 50 \<and>
      0 \<le> Planet.Eccentricity p \<and> Planet.Eccentricity p < 0.3 \<and>
      0.1 \<le> Planet.Mass p \<and> Planet.Mass p < 1000 \<and>
      0.3 \<le> Planet.Radius p \<and> Planet.Radius p < 15 \<and>
      1990 \<le> Planet.DiscoveryYear p \<and> Planet.DiscoveryYear p \<le> 2024)"

definition exoplanet_of :: "Star \<Rightarrow> Exoplanet \<Rightarrow> bool" where
  "exoplanet_of star p =
     (Exoplanet.StarID p = Star.ID star \<and>
      Exoplanet.OrbitalPeriod p =
        365.25 * sqrt (Exoplanet.SemiMajorAxis p * Exoplanet.SemiMajorAxis p
                       * Exoplanet.SemiMajorAxis p / Star.Mass star) \<and>
      Exoplanet.SurfaceTemp p =
        int32_of_float64 (real_of_int (Temperature star)
                          * sqrt (Star.Radius star / (2.0 * Exoplanet.SemiMajorAxis p))) \<and>
      0.01 \<le> Exoplanet.SemiMajorAxis p \<and> Exoplanet.SemiMajorAxis p < 5 \<and>
      0 \<le> Exoplanet.Eccentricity p \<and> Exoplanet.Eccentricity p < 0.5 \<and>
      0.5 \<le> Exoplanet.Mass p \<and> Exoplanet.Mass p < 500 \<and>
      0.5 \<le> Exoplanet.Radius p \<and> Exoplanet.Radius p < 12 \<and>
      10 \<le> HostDistance p \<and> HostDistance p < 10000 \<and>
      1990 \<le> Exoplanet.DiscoveryYear p \<and> Exoplanet.DiscoveryYear p \<le> 2024)"

text \<open>
  The three regimes of \<^verbatim>\<open>generatePlanet\<close>, as the source selects them from the
  planet type \<open>t\<close>.
\<close>

definition regime_of :: "real \<Rightarrow> Planet \<Rightarrow> bool" where
  "regime_of t p =
     (if t < 0.3 then
        0.1 \<le> Planet.Mass p \<and> Planet.Mass p < 5 \<and> 0.3 \<le> Planet.Radius p \<and> Planet.Radius p < 2
      else if t < 0.6 then
        5 \<le> Planet.Mass p \<and> Planet.Mass p < 20 \<and> 2 \<le> Planet.Radius p \<and> Planet.Radius p < 4
      else
        20 \<le> Planet.Mass p \<and> Planet.Mass p < 1000 \<and> 4 \<le> Planet.Radius p \<and> Planet.Radius p < 15)"

text \<open>
  Two invariants of the outer loop.  \<open>data_ok\<close>: every star is within the bounds of the
  table and every planet and exoplanet was generated for a star of the result.
  \<open>count_ok cfg i\<close>: after \<open>i\<close> passes there are \<open>i\<close> stars and no more planets and
  exoplanets than \<open>i\<close> times the respective cap.
\<close>

definition data_ok :: "GeneratedData \<Rightarrow> bool" where
  "data_ok d =
     ((\<forall>s\<in>set (Stars d). star_ok s) \<and>
      (\<forall>p\<in>set (Planets d). \<exists>s\<in>set (Stars d). planet_of s p) \<and>
      (\<forall>e\<in>set (Exoplanets d). \<exists>s\<in>set (Stars d). exoplanet_of s e))"

definition count_ok :: "Config \<Rightarrow> int \<Rightarrow> GeneratedData \<Rightarrow> bool" where
  "count_ok cfg i d =
     (int (length (Stars d)) = i \<and>
      int (length (Planets d)) \<le> i * PlanetsPerStar cfg \<and>
      int (length (Exoplanets d)) \<le> i * ExoPerStar cfg)"

text \<open>
  A run with one star that receives one planet and one exoplanet: the class draw
  \<open>0.1\<close> selects class G, the planet-type draw is \<open>0.3\<close>.
\<close>

definition example_lib :: "(real list \<times> int list, nat) lib" where
  "example_lib =
     scripted [0.1, 0.5, 0.5, 0.5, 0.3, 0.5, 0.5, 0.5, 0.1, 0.9, 0.5, 0.5, 0.5, 0.5, 0.5]
              [2, 100, 1, 3, 20, 1, 4, 30]"

definition example_cfg :: Config where
  "example_cfg = \<lparr>NumStars = 1, PlanetsPerStar = 1, ExoPerStar = 1, Seed = 12345\<rparr>"



section \<open>Results up to identifiers\<close>

text \<open>
  The identifier fields are the only ones filled from \<^verbatim>\<open>uuid.New()\<close>:
  \<^verbatim>\<open>ID\<close> of every entity, and \<^verbatim>\<open>StarID\<close>, a copy of the \<^verbatim>\<open>ID\<close> of a star.
  The functions below blank them.
\<close>

definition strip_star :: "Star \<Rightarrow> Star" where
  "strip_star s = s\<lparr>Star.ID := []\<rparr>"

definition strip_planet :: "Planet \<Rightarrow> Planet" where
  "strip_planet p = p\<lparr>Planet.ID := [], Planet.StarID := []\<rparr>"

definition strip_exoplanet :: "Exoplanet \<Rightarrow> Exoplanet" where
  "strip_exoplanet e = e\<lparr>Exoplanet.ID := [], Exoplanet.StarID := []\<rparr>"

definition strip_data :: "GeneratedData \<Rightarrow> GeneratedData" where
  "strip_data d =
     \<lparr>Stars = map strip_star (Stars d),
      Planets = map strip_planet (Planets d),
      Exoplanets = map strip_exoplanet (Exoplanets d)\<rparr>"

text \<open>
  \<open>obs f x\<close> is what remains of an outcome \<open>x\<close> of a computation when the value is
  seen through \<open>f\<close> and the state of the entropy source is dropped.  \<open>sim f m m'\<close>:
  from states with the same random generator, \<open>m\<close> and \<open>m'\<close> have the same outcome
  up to \<open>obs f\<close>.
\<close>

definition obs :: "('a \<Rightarrow> 'b) \<Rightarrow> panic + ('a \<times> ('r \<times> 'u)) \<Rightarrow> panic + ('b \<times> 'r)" where
  "obs f x = map_sum id (\<lambda>as. (f (fst as), fst (snd as))) x"

definition sim :: "('a \<Rightarrow> 'b) \<Rightarrow> ('r, 'u, 'a) gen \<Rightarrow> ('r, 'u, 'a) gen \<Rightarrow> bool" where
  "sim f m m' = (\<forall>s s'. fst s = fst s' \<longrightarrow> obs f (m s) = obs f (m' s'))"

section \<open>Rules for postconditions\<close>

lemmas gen_defs = and_then_def ret_def lift_def Float64_def Intn_def Int31n_def
  uuid_New_String_def randFloat_def randInt_def

lemma rand_contract_scripted: "rand_contract (scripted fs ks)"
  by (auto simp: rand_contract_def scripted_def pop_float_def pop_int_def split: list.splits)

lemma post_and_then: "post m s (\<lambda>a s'. post (f a) s' Q) \<Longrightarrow> post (and_then m f) s Q"
  by (auto simp: post_def and_then_def split: sum.splits)

lemma post_ret: "Q a s \<Longrightarrow> post (ret a) s Q"
  by (simp add: post_def ret_def)

lemma post_lift: "x = Inr a \<Longrightarrow> Q a s \<Longrightarrow> post (lift x) s Q"
  by (simp add: post_def lift_def)

lemma post_weaken: "post m s Q \<Longrightarrow> (\<And>a s'. Q a s' \<Longrightarrow> Q' a s') \<Longrightarrow> post m s Q'"
  by (auto simp: post_def split: sum.splits)

lemma post_Float64:
  "rand_contract L \<Longrightarrow> (\<And>f s'. 0 \<le> f \<Longrightarrow> f < 1 \<Longrightarrow> Q f s') \<Longrightarrow> post (Float64 L) s Q"
  by (auto simp: post_def Float64_def rand_contract_def split: prod.splits)
     (metis fst_conv)

lemma post_if: "(c \<Longrightarrow> post a s Q) \<Longrightarrow> (\<not> c \<Longrightarrow> post b s Q) \<Longrightarrow> post (if c then a else b) s Q"
  by simp

lemma post_Intn:
  "rand_contract L \<Longrightarrow> 0 < n \<Longrightarrow> (\<And>k s'. 0 \<le> k \<Longrightarrow> k < n \<Longrightarrow> Q k s') \<Longrightarrow> post (Intn L n) s Q"
  by (auto simp: post_def Intn_def rand_contract_def split: prod.splits)
     (metis fst_conv)

lemma post_Int31n:
  "rand_contract L \<Longrightarrow> 0 < n \<Longrightarrow> (\<And>k s'. 0 \<le> k \<Longrightarrow> k < n \<Longrightarrow> Q k s') \<Longrightarrow> post (Int31n L n) s Q"
  by (auto simp: post_def Int31n_def rand_contract_def split: prod.splits)
     (metis fst_conv)

lemma post_uuid: "(\<And>i s'. Q i s') \<Longrightarrow> post (uuid_New_String L) s Q"
  by (auto simp: post_def uuid_New_String_def split: prod.splits)

lemma post_randFloat:
  assumes "rand_contract L" "mn < mx" "\<And>x s'. mn \<le> x \<Longrightarrow> x < mx \<Longrightarrow> Q x s'"
  shows "post (randFloat L mn mx) s Q"
  unfolding randFloat_def
proof (rule post_and_then, rule post_Float64 [OF assms(1)], rule post_ret)
  fix f :: real and s'
  assume f: "0 \<le> f" "f < 1"
  have "f * (mx - mn) < 1 * (mx - mn)"
    using f assms(2) by (intro mult_strict_right_mono) auto
  moreover have "0 \<le> f * (mx - mn)" using f assms(2) by simp
  ultimately show "Q (mn + f * (mx - mn)) s'"
    by (intro assms(3)) auto
qed

lemma post_Float64_val:
  "rand_contract L \<Longrightarrow>
   (\<And>s'. 0 \<le> fst (rand_Float64 L (fst s)) \<Longrightarrow> fst (rand_Float64 L (fst s)) < 1 \<Longrightarrow>
      Q (fst (rand_Float64 L (fst s))) s') \<Longrightarrow> post (Float64 L) s Q"
  by (auto simp: post_def Float64_def rand_contract_def split: prod.splits)

lemma post_randFloat_state:
  assumes "rand_contract L" "mn < mx"
    "\<And>x s'. mn \<le> x \<Longrightarrow> x < mx \<Longrightarrow> fst s' = snd (rand_Float64 L (fst s)) \<Longrightarrow> Q x s'"
  shows "post (randFloat L mn mx) s Q"
proof -
  have "post (randFloat L mn mx) s (\<lambda>x s'. fst s' = snd (rand_Float64 L (fst s)))"
    by (simp add: post_def gen_defs split: prod.splits)
  moreover have "post (randFloat L mn mx) s (\<lambda>x s'. mn \<le> x \<and> x < mx)"
    by (rule post_randFloat [OF assms(1,2)]) simp
  ultimately show ?thesis
    using assms(3) by (auto simp: post_def split: sum.splits)
qed

lemma int32_wrap_id: "- (2 ^ 31) \<le> x \<Longrightarrow> x < 2 ^ 31 \<Longrightarrow> int32_wrap x = x"
  by (simp add: int32_wrap_def)

lemma post_randInt:
  assumes "rand_contract L" "0 \<le> mn" "mn \<le> mx" "mx < 2 ^ 31 - 1"
    "\<And>k s'. mn \<le> k \<Longrightarrow> k \<le> mx \<Longrightarrow> Q k s'"
  shows "post (randInt L mn mx) s Q"
proof -
  have w: "int32_wrap (int32_wrap (mx - mn) + 1) = mx - mn + 1"
    using assms(2-4) by (simp add: int32_wrap_id)
  show ?thesis
    unfolding randInt_def w
  proof (rule post_and_then, rule post_Int31n [OF assms(1)])
    show "0 < mx - mn + 1" using assms(3) by simp
  next
    fix k :: int and s'
    assume k: "0 \<le> k" "k < mx - mn + 1"
    have "int32_wrap (mn + k) = mn + k"
      using k assms(2-4) by (intro int32_wrap_id) auto
    then show "post (ret (int32_wrap (mn + k))) s' Q"
      using k by (auto intro!: post_ret assms(5))
  qed
qed


section \<open>The star sampler\<close>

lemma pick_class_range:
  "0 \<le> i \<Longrightarrow> ws \<noteq> [] \<Longrightarrow>
     0 \<le> pick_class ws val c i \<and> pick_class ws val c i < i + int (length ws)"
proof (induction ws arbitrary: c i)
  case Nil
  then show ?case by simp
next
  case (Cons w ws)
  show ?case
  proof (cases "ws = []")
    case True
    with Cons.prems show ?thesis by simp
  next
    case False
    from Cons.IH [OF _ False, of "i + 1" "c + w"] Cons.prems show ?thesis by simp
  qed
qed

lemma pick_class_weights: "0 \<le> pick_class weights val 0 0 \<and> pick_class weights val 0 0 < 7"
  using pick_class_range [of 0 weights val 0] by (simp add: weights_def)

lemma length_spectralTypes: "length spectralTypes = 7"
  by (simp add: spectralTypes_def)

lemma index_row:
  "0 \<le> k \<Longrightarrow> k < 7 \<Longrightarrow> index spectralTypes k = Inr (spectralTypes ! nat k) \<and> spectralTypes ! nat k \<in> set spectralTypes"
  by (auto simp: index_def length_spectralTypes intro!: nth_mem)

lemma class_lookup:
  "st \<in> set spectralTypes \<Longrightarrow>
     \<exists>c k. byte0 (class_name st @ rest) = Inr c \<and> find_class spectralTypes c 0 = Inr k \<and>
       index spectralTypes k = Inr st \<and> row_ok st"
  unfolding spectralTypes_def
  by (simp, elim disjE) (simp_all add: byte0_def index_def row_ok_def)

lemma generateSpectralType_eq:
  "generateSpectralType L s =
     (case rand_Float64 L (fst s) of (f, r1) \<Rightarrow>
      case rand_Intn L r1 10 of (d, r2) \<Rightarrow>
        Inr (class_name (spectralTypes ! nat (pick_class weights (f * sum_weights weights 0) 0 0))
               @ Sprintf_d d @ ''V'', (r2, snd s)))"
  using pick_class_weights
  by (simp add: generateSpectralType_def gen_defs index_row Let_def split: prod.splits)

lemma generateSpectralType_post:
  "post (generateSpectralType L) s (\<lambda>t s'. \<exists>st rest. st \<in> set spectralTypes \<and> t = class_name st @ rest)"
  using pick_class_weights index_row
  by (auto simp: post_def generateSpectralType_eq split: prod.splits)

lemma generateStar_post:
  assumes "rand_contract L"
  shows "post (generateStar L idx) s
           (\<lambda>star s'. star_ok star \<and> Star.Name star = ''Star-'' @ Sprintf_d idx)"
  unfolding generateStar_def
proof (rule post_and_then, rule post_weaken [OF generateSpectralType_post])
  fix t :: string and s1 :: "'a \<times> 'b"
  assume "\<exists>st rest. st \<in> set spectralTypes \<and> t = class_name st @ rest"
  then obtain st rest where st: "st \<in> set spectralTypes" "t = class_name st @ rest" by blast
  from class_lookup [OF st(1), of rest] obtain c k where
    l: "byte0 t = Inr c" "find_class spectralTypes c 0 = Inr k" "index spectralTypes k = Inr st"
       "row_ok st"
    using st(2) by auto
  show "post (and_then (lift (byte0 t)) (\<lambda>classChar.
     and_then (lift (find_class spectralTypes classChar 0)) (\<lambda>classIdx.
     and_then (lift (index spectralTypes classIdx)) (\<lambda>st.
     and_then (uuid_New_String L) (\<lambda>uuid.
     and_then (randFloat L (fst (massRange st)) (snd (massRange st))) (\<lambda>mass.
     and_then (randFloat L (fst (radiusRange st)) (snd (radiusRange st))) (\<lambda>radius.
     and_then (randInt L (fst (tempRange st)) (snd (tempRange st))) (\<lambda>temperature.
       ret \<lparr>Star.ID = uuid,
            Star.Name = ''Star-'' @ Sprintf_d idx,
            SpectralType = t,
            Star.Mass = mass,
            Star.Radius = radius,
            Temperature = temperature\<rparr>)))))))) s1
     (\<lambda>star s'. star_ok star \<and> Star.Name star = ''Star-'' @ Sprintf_d idx)"
    apply (rule post_and_then, rule post_lift [OF l(1)])
    apply (rule post_and_then, rule post_lift [OF l(2)])
    apply (rule post_and_then, rule post_lift [OF l(3)])
    apply (rule post_and_then, rule post_uuid)
    apply (rule post_and_then, rule post_randFloat [OF assms])
    using l(4) apply (simp add: row_ok_def)
    apply (rule post_and_then, rule post_randFloat [OF assms])
    using l(4) apply (simp add: row_ok_def)
    apply (rule post_and_then, rule post_randInt [OF assms])
    using l(4) apply (simp add: row_ok_def)
    using l(4) apply (simp add: row_ok_def)
    using l(4) apply (simp add: row_ok_def)
    apply (rule post_ret)
    using l(4) apply (simp add: row_ok_def star_ok_def)
    done
qed


section \<open>The planet and exoplanet samplers\<close>

lemma regime_block:
  assumes "rand_contract L"
  shows "post (if t < 0.3 then
          and_then (randFloat L 0.1 5.0) (\<lambda>mass.
          and_then (randFloat L 0.3 2.0) (\<lambda>radius. ret (mass, radius)))
        else if t < 0.6 then
          and_then (randFloat L 5.0 20.0) (\<lambda>mass.
          and_then (randFloat L 2.0 4.0) (\<lambda>radius. ret (mass, radius)))
        else
          and_then (randFloat L 20.0 1000.0) (\<lambda>mass.
          and_then (randFloat L 4.0 15.0) (\<lambda>radius. ret (mass, radius)))) s
     (\<lambda>mr s'. (if t < 0.3 then 0.1 \<le> fst mr \<and> fst mr < 5 \<and> 0.3 \<le> snd mr \<and> snd mr < 2
               else if t < 0.6 then 5 \<le> fst mr \<and> fst mr < 20 \<and> 2 \<le> snd mr \<and> snd mr < 4
               else 20 \<le> fst mr \<and> fst mr < 1000 \<and> 4 \<le> snd mr \<and> snd mr < 15))"
  apply (rule post_if)
   apply (rule post_and_then, rule post_randFloat [OF assms], simp)
   apply (rule post_and_then, rule post_randFloat [OF assms], simp)
   apply (rule post_ret, simp)
  apply (rule post_if)
   apply (rule post_and_then, rule post_randFloat [OF assms], simp)
   apply (rule post_and_then, rule post_randFloat [OF assms], simp)
   apply (rule post_ret, simp)
  apply (rule post_and_then, rule post_randFloat [OF assms], simp)
  apply (rule post_and_then, rule post_randFloat [OF assms], simp)
  apply (rule post_ret, simp)
  done

lemma index_atmosphere:
  "0 \<le> a \<Longrightarrow> a < int (length atmosphereTypes) \<Longrightarrow> index atmosphereTypes a = Inr (atmosphereTypes ! nat a)"
  by (simp add: index_def)

lemma index_detection:
  "0 \<le> a \<Longrightarrow> a < int (length detectionMethods) \<Longrightarrow> index detectionMethods a = Inr (detectionMethods ! nat a)"
  by (simp add: index_def)

lemma generatePlanet_post:
  assumes "rand_contract L"
  shows "post (generatePlanet L star idx) s
           (\<lambda>p s'. planet_of star p \<and>
               regime_of (fst (rand_Float64 L (snd (rand_Float64 L (fst s))))) p)"
  unfolding generatePlanet_def Let_def
  apply (rule post_and_then, rule post_randFloat_state [OF assms], simp)
  apply (rule post_and_then, rule post_Float64_val [OF assms])
  apply (rule post_and_then, rule post_weaken [OF regime_block [OF assms]])
  apply (simp only: split_beta)
  apply (rule post_and_then, rule post_uuid)
  apply (rule post_and_then, rule post_randFloat [OF assms], simp)
  apply (rule post_and_then, rule post_Intn [OF assms], simp add: atmosphereTypes_def)
  apply (rule post_and_then, rule post_lift [OF index_atmosphere], assumption, assumption)
  apply (rule post_and_then, rule post_Float64 [OF assms])
  apply (rule post_and_then, rule post_Float64 [OF assms])
  apply (rule post_and_then, rule post_randInt [OF assms], simp, simp, simp)
  apply (rule post_ret)
  apply (simp add: planet_of_def regime_of_def split: if_splits)
  done

lemma generateExoplanet_post:
  assumes "rand_contract L"
  shows "post (generateExoplanet L star idx) s (\<lambda>p s'. exoplanet_of star p)"
  unfolding generateExoplanet_def Let_def
  apply (rule post_and_then, rule post_randFloat [OF assms], simp)
  apply (rule post_and_then, rule post_randFloat [OF assms], simp)
  apply (rule post_and_then, rule post_randFloat [OF assms], simp)
  apply (rule post_and_then, rule post_randFloat [OF assms], simp)
  apply (rule post_and_then, rule post_uuid)
  apply (rule post_and_then, rule post_randFloat [OF assms], simp)
  apply (rule post_and_then, rule post_Intn [OF assms], simp add: detectionMethods_def)
  apply (rule post_and_then, rule post_lift [OF index_detection], assumption, assumption)
  apply (rule post_and_then, rule post_randInt [OF assms], simp, simp, simp)
  apply (rule post_ret)
  apply (simp add: exoplanet_of_def)
  done


section \<open>The loops of the assembler\<close>

lemma post_of_eq: "post m s Q \<Longrightarrow> m s = Inr (a, s') \<Longrightarrow> Q a s'"
  by (simp add: post_def)

lemma ppost_of_eq: "ppost m s Q \<Longrightarrow> m s = Inr (a, s') \<Longrightarrow> Q a s'"
  by (simp add: ppost_def)

lemma post_returns: "post m s Q \<Longrightarrow> \<exists>a s'. m s = Inr (a, s') \<and> Q a s'"
  by (auto simp: post_def split: sum.splits)

lemma ppost_and_then: "ppost m s (\<lambda>a s'. ppost (f a) s' Q) \<Longrightarrow> ppost (and_then m f) s Q"
  by (auto simp: ppost_def and_then_def split: sum.splits)

lemma ppost_of_post: "post m s Q' \<Longrightarrow> (\<And>a s'. Q' a s' \<Longrightarrow> Q a s') \<Longrightarrow> ppost m s Q"
  by (auto simp: post_def ppost_def split: sum.splits)

lemma ppost_Intn:
  "rand_contract L \<Longrightarrow> (\<And>k s'. 0 \<le> k \<Longrightarrow> k < n \<Longrightarrow> Q k s') \<Longrightarrow> ppost (Intn L n) s Q"
  by (auto simp: ppost_def Intn_def rand_contract_def split: prod.splits)
     (metis fst_conv linorder_not_le)

lemma ppost_ret: "Q a s \<Longrightarrow> ppost (ret a) s Q"
  by (simp add: ppost_def ret_def)

lemma planets_loop_post:
  assumes "rand_contract L"
  shows "post (planets_loop L star n j ps) s
           (\<lambda>ps' s'. \<exists>new. ps' = ps @ new \<and> int (length new) = max 0 (n - j) \<and>
                       (\<forall>p\<in>set new. planet_of star p))"
  using assms
proof (induction L star n j ps s rule: planets_loop.induct)
  case (1 L star n j ps s)
  show ?case
  proof (cases "j < n")
    case False
    then show ?thesis by (simp add: planets_loop.simps [of L star n j] post_def)
  next
    case True
    from post_returns [OF generatePlanet_post [OF "1.prems", where star = star and idx = "j + 1" and s = s]]
    obtain p s1 where g: "generatePlanet L star (j + 1) s = Inr (p, s1)" "planet_of star p"
      by blast
    from "1.IH" [OF True g(1) refl "1.prems"]
    have "post (planets_loop L star n (j + 1) (ps @ [p])) s1
            (\<lambda>ps' s'. \<exists>new. ps' = (ps @ [p]) @ new \<and> int (length new) = max 0 (n - (j + 1)) \<and>
                       (\<forall>p\<in>set new. planet_of star p))" .
    then have "post (planets_loop L star n (j + 1) (ps @ [p])) s1
            (\<lambda>ps' s'. \<exists>new. ps' = ps @ new \<and> int (length new) = max 0 (n - j) \<and>
                       (\<forall>p\<in>set new. planet_of star p))"
    proof (rule post_weaken)
      fix ps' s'
      assume "\<exists>new. ps' = (ps @ [p]) @ new \<and> int (length new) = max 0 (n - (j + 1)) \<and>
                       (\<forall>p\<in>set new. planet_of star p)"
      then obtain new where n: "ps' = (ps @ [p]) @ new" "int (length new) = max 0 (n - (j + 1))"
        "\<forall>p\<in>set new. planet_of star p" by blast
      show "\<exists>new. ps' = ps @ new \<and> int (length new) = max 0 (n - j) \<and>
                       (\<forall>p\<in>set new. planet_of star p)"
        using n g(2) True by (intro exI [of _ "p # new"]) auto
    qed
    then show ?thesis
      using True g(1) by (simp add: planets_loop.simps [of L star n j] post_def)
  qed
qed

lemma exoplanets_loop_post:
  assumes "rand_contract L"
  shows "post (exoplanets_loop L star n j ps) s
           (\<lambda>ps' s'. \<exists>new. ps' = ps @ new \<and> int (length new) = max 0 (n - j) \<and>
                       (\<forall>p\<in>set new. exoplanet_of star p))"
  using assms
proof (induction L star n j ps s rule: exoplanets_loop.induct)
  case (1 L star n j ps s)
  show ?case
  proof (cases "j < n")
    case False
    then show ?thesis by (simp add: exoplanets_loop.simps [of L star n j] post_def)
  next
    case True
    from post_returns [OF generateExoplanet_post [OF "1.prems", where star = star and idx = "j + 1" and s = s]]
    obtain p s1 where g: "generateExoplanet L star (j + 1) s = Inr (p, s1)" "exoplanet_of star p"
      by blast
    from "1.IH" [OF True g(1) refl "1.prems"]
    have "post (exoplanets_loop L star n (j + 1) (ps @ [p])) s1
            (\<lambda>ps' s'. \<exists>new. ps' = (ps @ [p]) @ new \<and> int (length new) = max 0 (n - (j + 1)) \<and>
                       (\<forall>p\<in>set new. exoplanet_of star p))" .
    then have "post (exoplanets_loop L star n (j + 1) (ps @ [p])) s1
            (\<lambda>ps' s'. \<exists>new. ps' = ps @ new \<and> int (length new) = max 0 (n - j) \<and>
                       (\<forall>p\<in>set new. exoplanet_of star p))"
    proof (rule post_weaken)
      fix ps' s'
      assume "\<exists>new. ps' = (ps @ [p]) @ new \<and> int (length new) = max 0 (n - (j + 1)) \<and>
                       (\<forall>p\<in>set new. exoplanet_of star p)"
      then obtain new where n: "ps' = (ps @ [p]) @ new" "int (length new) = max 0 (n - (j + 1))"
        "\<forall>p\<in>set new. exoplanet_of star p" by blast
      show "\<exists>new. ps' = ps @ new \<and> int (length new) = max 0 (n - j) \<and>
                       (\<forall>p\<in>set new. exoplanet_of star p)"
        using n g(2) True by (intro exI [of _ "p # new"]) auto
    qed
    then show ?thesis
      using True g(1) by (simp add: exoplanets_loop.simps [of L star n j] post_def)
  qed
qed

lemma star_step_ppost:
  assumes "rand_contract L"
  shows "ppost (star_step L cfg i d) s
           (\<lambda>d' s'. \<exists>star ps es.
               d' = \<lparr>Stars = Stars d @ [star], Planets = Planets d @ ps,
                     Exoplanets = Exoplanets d @ es\<rparr> \<and>
               star_ok star \<and> Star.Name star = ''Star-'' @ Sprintf_d (i + 1) \<and>
               (\<forall>p\<in>set ps. planet_of star p) \<and> (\<forall>e\<in>set es. exoplanet_of star e) \<and>
               int (length ps) < int64_wrap (PlanetsPerStar cfg + 1) \<and>
               int (length es) < int64_wrap (ExoPerStar cfg + 1))"
  unfolding star_step_def
  apply (rule ppost_and_then, rule ppost_of_post [OF generateStar_post [OF assms]])
  apply (rule ppost_and_then, rule ppost_Intn [OF assms])
  apply (rule ppost_and_then, rule ppost_of_post [OF planets_loop_post [OF assms]])
  apply (rule ppost_and_then, rule ppost_Intn [OF assms])
  apply (rule ppost_and_then, rule ppost_of_post [OF exoplanets_loop_post [OF assms]])
  apply (rule ppost_ret)
  apply (elim exE conjE)
  subgoal for star s1 np s2 ps s3 ne s4 es s5 newp newe
    by (intro exI [of _ star] exI [of _ newp] exI [of _ newe]) auto
  done

lemma star_step_returns:
  assumes "rand_contract L" "0 < int64_wrap (PlanetsPerStar cfg + 1)"
    "0 < int64_wrap (ExoPerStar cfg + 1)"
  shows "post (star_step L cfg i d) s (\<lambda>d' s'. True)"
  unfolding star_step_def
  apply (rule post_and_then, rule post_weaken [OF generateStar_post [OF assms(1)]])
  apply (rule post_and_then, rule post_Intn [OF assms(1,2)])
  apply (rule post_and_then, rule post_weaken [OF planets_loop_post [OF assms(1)]])
  apply (rule post_and_then, rule post_Intn [OF assms(1,3)])
  apply (rule post_and_then, rule post_weaken [OF exoplanets_loop_post [OF assms(1)]])
  apply (rule post_ret)
  apply simp
  done


lemma stars_loop_inv:
  assumes "\<And>i d s d' s'. i < NumStars cfg \<Longrightarrow> I i d \<Longrightarrow> star_step L cfg i d s = Inr (d', s')
             \<Longrightarrow> I (i + 1) d'"
    and "I i d"
  shows "ppost (stars_loop L cfg i d) s (\<lambda>d' s'. I (max i (NumStars cfg)) d')"
  using assms
proof (induction L cfg i d s rule: stars_loop.induct)
  case (1 L cfg i d s)
  show ?case
  proof (cases "i < NumStars cfg")
    case False
    then show ?thesis
      using "1.prems"(2) by (simp add: stars_loop.simps [of L cfg i] ppost_def max_def)
  next
    case True
    show ?thesis
    proof (cases "star_step L cfg i d s")
      case (Inl e)
      then show ?thesis using True by (simp add: stars_loop.simps [of L cfg i] ppost_def)
    next
      case (Inr x)
      obtain d1 s1 where x: "x = (d1, s1)" by (cases x)
      have i1: "I (i + 1) d1" using "1.prems"(1) [OF True "1.prems"(2)] Inr x by simp
      have "ppost (stars_loop L cfg (i + 1) d1) s1 (\<lambda>d' s'. I (max (i + 1) (NumStars cfg)) d')"
        using "1.IH" [OF True Inr x [symmetric] "1.prems"(1) i1] by simp
      moreover have "max (i + 1) (NumStars cfg) = max i (NumStars cfg)" using True by simp
      ultimately show ?thesis
        using True Inr x by (simp add: stars_loop.simps [of L cfg i] ppost_def)
    qed
  qed
qed

lemma stars_loop_returns:
  assumes "rand_contract L"
    "i < NumStars cfg \<longrightarrow> 0 < int64_wrap (PlanetsPerStar cfg + 1) \<and> 0 < int64_wrap (ExoPerStar cfg + 1)"
  shows "post (stars_loop L cfg i d) s (\<lambda>d' s'. True)"
  using assms
proof (induction L cfg i d s rule: stars_loop.induct)
  case (1 L cfg i d s)
  show ?case
  proof (cases "i < NumStars cfg")
    case False
    then show ?thesis by (simp add: stars_loop.simps [of L cfg i] post_def)
  next
    case True
    with "1.prems" have pos: "0 < int64_wrap (PlanetsPerStar cfg + 1)"
      "0 < int64_wrap (ExoPerStar cfg + 1)" by auto
    from post_returns [OF star_step_returns [OF "1.prems"(1) pos, where i = i and d = d and s = s]]
    obtain d1 s1 where st: "star_step L cfg i d s = Inr (d1, s1)" by blast
    have "post (stars_loop L cfg (i + 1) d1) s1 (\<lambda>d' s'. True)"
      using "1.IH" [OF True st refl "1.prems"(1)] pos by simp
    then show ?thesis
      using True st by (simp add: stars_loop.simps [of L cfg i] post_def)
  qed
qed

lemma star_step_data_ok:
  assumes "rand_contract L" "data_ok d" "star_step L cfg i d s = Inr (d', s')"
  shows "data_ok d'"
proof -
  from ppost_of_eq [OF star_step_ppost [OF assms(1)] assms(3)]
  obtain star ps es where
    d': "d' = \<lparr>Stars = Stars d @ [star], Planets = Planets d @ ps, Exoplanets = Exoplanets d @ es\<rparr>"
    and ok: "star_ok star" "\<forall>p\<in>set ps. planet_of star p" "\<forall>e\<in>set es. exoplanet_of star e"
    by blast
  show ?thesis
    using assms(2) ok unfolding data_ok_def d' by auto
qed

lemma int64_wrap_le: "0 \<le> x \<Longrightarrow> int64_wrap x \<le> x"
proof -
  assume "0 \<le> x"
  then have "(x + 2 ^ 63) mod 2 ^ 64 \<le> x + 2 ^ 63"
    by (intro zmod_le_nonneg_dividend) simp
  then show ?thesis by (simp add: int64_wrap_def)
qed


lemma star_step_count_ok:
  assumes "rand_contract L" "0 \<le> PlanetsPerStar cfg" "0 \<le> ExoPerStar cfg"
    "count_ok cfg i d" "star_step L cfg i d s = Inr (d', s')"
  shows "count_ok cfg (i + 1) d'"
proof -
  from ppost_of_eq [OF star_step_ppost [OF assms(1)] assms(5)]
  obtain star ps es where
    d': "d' = \<lparr>Stars = Stars d @ [star], Planets = Planets d @ ps, Exoplanets = Exoplanets d @ es\<rparr>"
    and len: "int (length ps) < int64_wrap (PlanetsPerStar cfg + 1)"
             "int (length es) < int64_wrap (ExoPerStar cfg + 1)"
    by blast
  have "int (length ps) \<le> PlanetsPerStar cfg" "int (length es) \<le> ExoPerStar cfg"
    using len int64_wrap_le [of "PlanetsPerStar cfg + 1"] int64_wrap_le [of "ExoPerStar cfg + 1"]
      assms(2,3) by auto
  then show ?thesis
    using assms(4) unfolding count_ok_def d' by (simp add: algebra_simps)
qed

lemma GenerateAll_Inr:
  "GenerateAll L u cfg = Inr d \<Longrightarrow>
     0 \<le> NumStars cfg \<and>
     (\<exists>s'. stars_loop L cfg 0 \<lparr>Stars = [], Planets = [], Exoplanets = []\<rparr>
              (rand_New L (Seed cfg), u) = Inr (d, s'))"
  by (auto simp: GenerateAll_def Let_def split: if_splits sum.splits)

lemma GenerateAll_data_ok:
  assumes "rand_contract L" "GenerateAll L u cfg = Inr d"
  shows "data_ok d"
proof -
  from GenerateAll_Inr [OF assms(2)] obtain s' where
    l: "stars_loop L cfg 0 \<lparr>Stars = [], Planets = [], Exoplanets = []\<rparr>
          (rand_New L (Seed cfg), u) = Inr (d, s')" by blast
  have "data_ok \<lparr>Stars = [], Planets = [], Exoplanets = []\<rparr>" by (simp add: data_ok_def)
  from ppost_of_eq [OF stars_loop_inv [where I = "\<lambda>i. data_ok", OF star_step_data_ok [OF assms(1)] this] l]
  show ?thesis .
qed

lemma GenerateAll_count_ok:
  assumes "rand_contract L" "0 \<le> PlanetsPerStar cfg" "0 \<le> ExoPerStar cfg"
    "GenerateAll L u cfg = Inr d"
  shows "count_ok cfg (NumStars cfg) d"
proof -
  from GenerateAll_Inr [OF assms(4)] obtain s' where
    n: "0 \<le> NumStars cfg" and
    l: "stars_loop L cfg 0 \<lparr>Stars = [], Planets = [], Exoplanets = []\<rparr>
          (rand_New L (Seed cfg), u) = Inr (d, s')" by blast
  have "count_ok cfg 0 \<lparr>Stars = [], Planets = [], Exoplanets = []\<rparr>" by (simp add: count_ok_def)
  from ppost_of_eq [OF stars_loop_inv [where I = "count_ok cfg", OF star_step_count_ok [OF assms(1-3)] this] l]
  show ?thesis using n by (simp add: max_def)
qed

lemma GenerateAll_returns:
  assumes "rand_contract L" "0 \<le> NumStars cfg"
    "0 < NumStars cfg \<longrightarrow> 0 < int64_wrap (PlanetsPerStar cfg + 1) \<and> 0 < int64_wrap (ExoPerStar cfg + 1)"
  shows "\<exists>d. GenerateAll L u cfg = Inr d"
proof -
  from post_returns [OF stars_loop_returns [OF assms(1), where cfg = cfg and i = 0]] assms(3)
  obtain d s' where "stars_loop L cfg 0 \<lparr>Stars = [], Planets = [], Exoplanets = []\<rparr>
          (rand_New L (Seed cfg), u) = Inr (d, s')" by blast
  then show ?thesis using assms(2) by (simp add: GenerateAll_def)
qed


section \<open>Derived quantities\<close>

lemma derived_temp:
  assumes "2400 \<le> T" "T \<le> 50000" "0.1 \<le> R" "R < 15" "0.01 \<le> a" "a < 50"
  shows "int32_of_float64 (real_of_int T * sqrt (R / (2 * a))) = \<lfloor>real_of_int T * sqrt (R / (2 * a))\<rfloor>
         \<and> 0 < \<lfloor>real_of_int T * sqrt (R / (2 * a))\<rfloor>"
proof -
  define y where "y = R / (2 * a)"
  have a: "0 < 2 * a" using assms(5) by simp
  have y1: "0.001 \<le> y" unfolding y_def using assms a by (simp add: pos_le_divide_eq)
  have y2: "y < 750" unfolding y_def using assms a by (simp add: pos_divide_less_eq)
  have s1: "0.03 < sqrt y" using y1 by (intro real_less_rsqrt) (simp add: power2_eq_square)
  have s2: "sqrt y < 28" using y1 y2 by (intro real_less_lsqrt) auto
  have T: "2400 \<le> real_of_int T" "real_of_int T \<le> 50000" using assms(1,2) by auto
  have "2400 * 0.03 \<le> real_of_int T * sqrt y"
    using T s1 y1 by (intro mult_mono) simp_all
  then have lo: "72 \<le> real_of_int T * sqrt y" by simp
  have "real_of_int T * sqrt y \<le> 50000 * 28"
    using T s1 s2 y1 by (intro mult_mono) simp_all
  then have hi: "real_of_int T * sqrt y \<le> 1400000" by simp
  have f1: "72 \<le> \<lfloor>real_of_int T * sqrt y\<rfloor>" using lo by (simp add: le_floor_iff)
  have f2: "\<lfloor>real_of_int T * sqrt y\<rfloor> \<le> 1400000" using hi by (simp add: floor_le_iff)
  show ?thesis
    using f1 f2 lo unfolding y_def [symmetric] int32_of_float64_def Let_def by simp
qed

section \<open>Evaluation on the scripted library\<close>

lemmas eval_defs = gen_defs scripted_def pop_float_def pop_int_def GenerateAll_def
  stars_loop.simps star_step_def planets_loop.simps exoplanets_loop.simps
  generateStar_def generateSpectralType_def generatePlanet_def generateExoplanet_def
  weights_def spectralTypes_def atmosphereTypes_def detectionMethods_def
  index_def byte0_def Sprintf_d_def digits_nat.simps digit_char_def
  int32_wrap_def int64_wrap_def

lemma example_run:
  "\<exists>d. GenerateAll example_lib 0 example_cfg = Inr d \<and> length (Stars d) = 1 \<and>
        length (Planets d) = 1 \<and> length (Exoplanets d) = 1 \<and>
        distinct (map Star.ID (Stars d))"
  by (simp add: example_lib_def example_cfg_def eval_defs)

section \<open>Consequences of the invariants\<close>

lemma derived_period_eq:
  assumes "0 < M" "0 < a" "P = 365.25 * sqrt (a * a * a / M)"
  shows "P = 365.25 * sqrt (a ^ 3 / M)" and "0 < P"
proof -
  have c: "a * a * a = a ^ 3" by (simp add: power3_eq_cube)
  show e: "P = 365.25 * sqrt (a ^ 3 / M)" using assms(3) unfolding c .
  have "0 < a ^ 3 / M" using assms(1,2) by simp
  then have "0 < sqrt (a ^ 3 / M)" by simp
  then have "0 < 365.25 * sqrt (a ^ 3 / M)" by simp
  then show "0 < P" unfolding e .
qed

lemma planet_of_derived:
  assumes "star_ok s" "planet_of s p"
  shows "Planet.OrbitalPeriod p = 365.25 * sqrt (Planet.SemiMajorAxis p ^ 3 / Star.Mass s)"
    and "0 < Planet.OrbitalPeriod p"
    and "Planet.SurfaceTemp p =
           \<lfloor>real_of_int (Temperature s) * sqrt (Star.Radius s / (2 * Planet.SemiMajorAxis p))\<rfloor>"
    and "0 < Planet.SurfaceTemp p"
proof -
  have M: "0 < Star.Mass s" and a: "0 < Planet.SemiMajorAxis p"
    using assms by (simp_all add: star_ok_def planet_of_def)
  have "Planet.OrbitalPeriod p =
          365.25 * sqrt (Planet.SemiMajorAxis p * Planet.SemiMajorAxis p * Planet.SemiMajorAxis p
                         / Star.Mass s)"
    using assms(2) unfolding planet_of_def by blast
  from derived_period_eq [OF M a this]
  show "Planet.OrbitalPeriod p = 365.25 * sqrt (Planet.SemiMajorAxis p ^ 3 / Star.Mass s)"
    and "0 < Planet.OrbitalPeriod p" .
  have "int32_of_float64 (real_of_int (Temperature s) * sqrt (Star.Radius s / (2 * Planet.SemiMajorAxis p))) =
          \<lfloor>real_of_int (Temperature s) * sqrt (Star.Radius s / (2 * Planet.SemiMajorAxis p))\<rfloor> \<and>
        0 < \<lfloor>real_of_int (Temperature s) * sqrt (Star.Radius s / (2 * Planet.SemiMajorAxis p))\<rfloor>"
    using assms by (intro derived_temp) (simp_all add: star_ok_def planet_of_def)
  with assms(2)
  show "Planet.SurfaceTemp p =
           \<lfloor>real_of_int (Temperature s) * sqrt (Star.Radius s / (2 * Planet.SemiMajorAxis p))\<rfloor>"
    and "0 < Planet.SurfaceTemp p"
    by (simp_all add: planet_of_def)
qed

lemma exoplanet_of_derived:
  assumes "star_ok s" "exoplanet_of s p"
  shows "Exoplanet.OrbitalPeriod p = 365.25 * sqrt (Exoplanet.SemiMajorAxis p ^ 3 / Star.Mass s)"
    and "0 < Exoplanet.OrbitalPeriod p"
    and "Exoplanet.SurfaceTemp p =
           \<lfloor>real_of_int (Temperature s) * sqrt (Star.Radius s / (2 * Exoplanet.SemiMajorAxis p))\<rfloor>"
    and "0 < Exoplanet.SurfaceTemp p"
proof -
  have M: "0 < Star.Mass s" and a: "0 < Exoplanet.SemiMajorAxis p"
    using assms by (simp_all add: star_ok_def exoplanet_of_def)
  have "Exoplanet.OrbitalPeriod p =
          365.25 * sqrt (Exoplanet.SemiMajorAxis p * Exoplanet.SemiMajorAxis p
                         * Exoplanet.SemiMajorAxis p / Star.Mass s)"
    using assms(2) unfolding exoplanet_of_def by blast
  from derived_period_eq [OF M a this]
  show "Exoplanet.OrbitalPeriod p = 365.25 * sqrt (Exoplanet.SemiMajorAxis p ^ 3 / Star.Mass s)"
    and "0 < Exoplanet.OrbitalPeriod p" .
  have "int32_of_float64 (real_of_int (Temperature s) * sqrt (Star.Radius s / (2 * Exoplanet.SemiMajorAxis p))) =
          \<lfloor>real_of_int (Temperature s) * sqrt (Star.Radius s / (2 * Exoplanet.SemiMajorAxis p))\<rfloor> \<and>
        0 < \<lfloor>real_of_int (Temperature s) * sqrt (Star.Radius s / (2 * Exoplanet.SemiMajorAxis p))\<rfloor>"
    using assms by (intro derived_temp) (simp_all add: star_ok_def exoplanet_of_def)
  with assms(2)
  show "Exoplanet.SurfaceTemp p =
           \<lfloor>real_of_int (Temperature s) * sqrt (Star.Radius s / (2 * Exoplanet.SemiMajorAxis p))\<rfloor>"
    and "0 < Exoplanet.SurfaceTemp p"
    by (simp_all add: exoplanet_of_def)
qed

lemma data_ok_planet:
  "data_ok d \<Longrightarrow> p \<in> set (Planets d) \<Longrightarrow>
     \<exists>s\<in>set (Stars d). star_ok s \<and> planet_of s p \<and> Star.ID s = Planet.StarID p"
proof -
  assume "data_ok d" "p \<in> set (Planets d)"
  then obtain s where s: "s \<in> set (Stars d)" "star_ok s" "planet_of s p"
    unfolding data_ok_def by blast
  from s(3) have "Star.ID s = Planet.StarID p" unfolding planet_of_def by simp
  with s show ?thesis by blast
qed

lemma data_ok_exoplanet:
  "data_ok d \<Longrightarrow> e \<in> set (Exoplanets d) \<Longrightarrow>
     \<exists>s\<in>set (Stars d). star_ok s \<and> exoplanet_of s e \<and> Star.ID s = Exoplanet.StarID e"
proof -
  assume "data_ok d" "e \<in> set (Exoplanets d)"
  then obtain s where s: "s \<in> set (Stars d)" "star_ok s" "exoplanet_of s e"
    unfolding data_ok_def by blast
  from s(3) have "Star.ID s = Exoplanet.StarID e" unfolding exoplanet_of_def by simp
  with s show ?thesis by blast
qed

lemma unique_parent:
  "distinct (map Star.ID stars) \<Longrightarrow> s \<in> set stars \<Longrightarrow> s' \<in> set stars \<Longrightarrow>
     Star.ID s = Star.ID s' \<Longrightarrow> s = s'"
  by (meson distinct_map inj_onD)

lemma example_contract: "rand_contract example_lib"
  by (simp add: example_lib_def rand_contract_scripted)

section \<open>The choice of the spectral class\<close>











section \<open>Reproducibility up to identifiers\<close>

lemma simD: "sim f m m' \<Longrightarrow> fst s = fst s' \<Longrightarrow> obs f (m s) = obs f (m' s')"
  unfolding sim_def by blast

lemma sim_and_then:
  assumes "sim f m m'" "\<And>a a'. f a = f a' \<Longrightarrow> sim g (k a) (k' a')"
  shows "sim g (and_then m k) (and_then m' k')"
  unfolding sim_def
proof (intro allI impI)
  fix s s' :: "'c \<times> 'd"
  assume e: "fst s = fst s'"
  from assms(1) e have o: "obs f (m s) = obs f (m' s')" by (rule simD)
  show "obs g (and_then m k s) = obs g (and_then m' k' s')"
  proof (cases "m s")
    case (Inl x)
    with o show ?thesis by (cases "m' s'") (auto simp: obs_def and_then_def)
  next
    case (Inr x)
    with o obtain y where y: "m' s' = Inr y" "f (fst x) = f (fst y)" "fst (snd x) = fst (snd y)"
      by (cases "m' s'") (auto simp: obs_def)
    from assms(2) [OF y(2)] y(3) have "obs g (k (fst x) (snd x)) = obs g (k' (fst y) (snd y))"
      by (rule simD)
    with Inr y(1) show ?thesis by (simp add: and_then_def split_beta)
  qed
qed

lemma sim_and_then_id:
  assumes "sim id m m'" "\<And>a. sim g (k a) (k' a)"
  shows "sim g (and_then m k) (and_then m' k')"
  using assms(1) by (rule sim_and_then) (simp add: assms(2))

lemma sim_ret: "g a = g a' \<Longrightarrow> sim g (ret a) (ret a')"
  by (simp add: sim_def obs_def ret_def)

lemma sim_lift: "sim id (lift x) (lift x)"
  by (cases x) (simp_all add: sim_def obs_def lift_def)

lemma sim_Float64: "sim id (Float64 L) (Float64 L)"
  by (simp add: sim_def obs_def Float64_def split_beta)

lemma sim_Intn: "sim id (Intn L n) (Intn L n)"
  by (simp add: sim_def obs_def Intn_def split_beta)

lemma sim_Int31n: "sim id (Int31n L n) (Int31n L n)"
  by (simp add: sim_def obs_def Int31n_def split_beta)

lemma sim_uuid: "sim (\<lambda>i. ()) (uuid_New_String L) (uuid_New_String L)"
  by (simp add: sim_def obs_def uuid_New_String_def split_beta)

lemma sim_and_then_uuid:
  assumes "\<And>i i'. sim g (k i) (k' i')"
  shows "sim g (and_then (uuid_New_String L) k) (and_then (uuid_New_String L) k')"
  using sim_uuid by (rule sim_and_then) (rule assms)

lemma sim_randFloat: "sim id (randFloat L mn mx) (randFloat L mn mx)"
  unfolding randFloat_def
  by (rule sim_and_then_id, rule sim_Float64, rule sim_ret, simp)

lemma sim_randInt: "sim id (randInt L mn mx) (randInt L mn mx)"
  unfolding randInt_def
  by (rule sim_and_then_id, rule sim_Int31n, rule sim_ret, simp)

lemma sim_if:
  "(c \<Longrightarrow> sim f a a') \<Longrightarrow> (\<not> c \<Longrightarrow> sim f b b') \<Longrightarrow> sim f (if c then a else b) (if c then a' else b')"
  by simp

lemma sim_generateSpectralType: "sim id (generateSpectralType L) (generateSpectralType L)"
  unfolding generateSpectralType_def Let_def
  apply (rule sim_and_then_id, rule sim_Float64)
  apply (rule sim_and_then_id, rule sim_lift)
  apply (rule sim_and_then_id, rule sim_Intn)
  apply (rule sim_ret, simp)
  done

lemma sim_generateStar: "sim strip_star (generateStar L idx) (generateStar L idx)"
  unfolding generateStar_def
  apply (rule sim_and_then_id, rule sim_generateSpectralType)
  apply (rule sim_and_then_id, rule sim_lift)
  apply (rule sim_and_then_id, rule sim_lift)
  apply (rule sim_and_then_id, rule sim_lift)
  apply (rule sim_and_then_uuid)
  apply (rule sim_and_then_id, rule sim_randFloat)
  apply (rule sim_and_then_id, rule sim_randFloat)
  apply (rule sim_and_then_id, rule sim_randInt)
  apply (rule sim_ret, simp add: strip_star_def)
  done

lemma strip_star_eq:
  assumes "strip_star a = strip_star b"
  shows "Star.Name a = Star.Name b" "SpectralType a = SpectralType b" "Star.Mass a = Star.Mass b"
    "Star.Radius a = Star.Radius b" "Temperature a = Temperature b"
  using assms by (cases a; cases b; simp add: strip_star_def)+

lemma sim_generatePlanet:
  assumes "strip_star star = strip_star star'"
  shows "sim strip_planet (generatePlanet L star idx) (generatePlanet L star' idx)"
  unfolding generatePlanet_def Let_def strip_star_eq [OF assms]
  apply (rule sim_and_then_id, rule sim_randFloat)
  apply (rule sim_and_then_id, rule sim_Float64)
  apply (rule sim_and_then_id)
   apply (rule sim_if)
    apply (rule sim_and_then_id, rule sim_randFloat)
    apply (rule sim_and_then_id, rule sim_randFloat)
    apply (rule sim_ret, simp)
   apply (rule sim_if)
    apply (rule sim_and_then_id, rule sim_randFloat)
    apply (rule sim_and_then_id, rule sim_randFloat)
    apply (rule sim_ret, simp)
   apply (rule sim_and_then_id, rule sim_randFloat)
   apply (rule sim_and_then_id, rule sim_randFloat)
   apply (rule sim_ret, simp)
  apply (simp only: split_beta)
  apply (rule sim_and_then_uuid)
  apply (rule sim_and_then_id, rule sim_randFloat)
  apply (rule sim_and_then_id, rule sim_Intn)
  apply (rule sim_and_then_id, rule sim_lift)
  apply (rule sim_and_then_id, rule sim_Float64)
  apply (rule sim_and_then_id, rule sim_Float64)
  apply (rule sim_and_then_id, rule sim_randInt)
  apply (rule sim_ret, simp add: strip_planet_def)
  done

lemma sim_generateExoplanet:
  assumes "strip_star star = strip_star star'"
  shows "sim strip_exoplanet (generateExoplanet L star idx) (generateExoplanet L star' idx)"
  unfolding generateExoplanet_def Let_def strip_star_eq [OF assms]
  apply (rule sim_and_then_id, rule sim_randFloat)
  apply (rule sim_and_then_id, rule sim_randFloat)
  apply (rule sim_and_then_id, rule sim_randFloat)
  apply (rule sim_and_then_id, rule sim_randFloat)
  apply (rule sim_and_then_uuid)
  apply (rule sim_and_then_id, rule sim_randFloat)
  apply (rule sim_and_then_id, rule sim_Intn)
  apply (rule sim_and_then_id, rule sim_lift)
  apply (rule sim_and_then_id, rule sim_randInt)
  apply (rule sim_ret, simp add: strip_exoplanet_def)
  done


lemma obs_Inl: "obs f x = obs f y \<Longrightarrow> x = Inl e \<Longrightarrow> y = Inl e"
  by (cases y) (auto simp: obs_def)

lemma obs_Inr:
  "obs f x = obs f y \<Longrightarrow> x = Inr (a, s) \<Longrightarrow>
     \<exists>a' s'. y = Inr (a', s') \<and> f a = f a' \<and> fst s = fst s'"
  by (cases y) (auto simp: obs_def)

lemma planets_loop_obs:
  assumes "strip_star star = strip_star star'"
    "map strip_planet ps = map strip_planet ps'" "fst s = fst s'"
  shows "obs (map strip_planet) (planets_loop L star n j ps s) =
         obs (map strip_planet) (planets_loop L star' n j ps' s')"
  using assms
proof (induction L star n j ps s arbitrary: ps' s' rule: planets_loop.induct)
  case (1 L star n j ps s)
  show ?case
  proof (cases "j < n")
    case False
    then show ?thesis
      using "1.prems" by (simp add: planets_loop.simps [of _ _ n j] obs_def)
  next
    case True
    have o: "obs strip_planet (generatePlanet L star (j + 1) s) =
             obs strip_planet (generatePlanet L star' (j + 1) s')"
      using sim_generatePlanet [OF "1.prems"(1)] "1.prems"(3) by (rule simD)
    show ?thesis
    proof (cases "generatePlanet L star (j + 1) s")
      case (Inl e)
      from obs_Inl [OF o Inl] Inl True show ?thesis
        by (simp add: planets_loop.simps [of _ _ n j] obs_def)
    next
      case (Inr x)
      obtain p s1 where x: "x = (p, s1)" by (cases x)
      from obs_Inr [OF o Inr [unfolded x]] obtain p' s1' where
        y: "generatePlanet L star' (j + 1) s' = Inr (p', s1')" "strip_planet p = strip_planet p'"
           "fst s1 = fst s1'" by blast
      have "obs (map strip_planet) (planets_loop L star n (j + 1) (ps @ [p]) s1) =
            obs (map strip_planet) (planets_loop L star' n (j + 1) (ps' @ [p']) s1')"
        using "1.prems"(2) y(2) by (intro "1.IH" [OF True Inr x [symmetric] "1.prems"(1) _ y(3)]) simp
      then show ?thesis
        using True Inr x y(1) by (simp add: planets_loop.simps [of _ _ n j])
    qed
  qed
qed

lemma exoplanets_loop_obs:
  assumes "strip_star star = strip_star star'"
    "map strip_exoplanet ps = map strip_exoplanet ps'" "fst s = fst s'"
  shows "obs (map strip_exoplanet) (exoplanets_loop L star n j ps s) =
         obs (map strip_exoplanet) (exoplanets_loop L star' n j ps' s')"
  using assms
proof (induction L star n j ps s arbitrary: ps' s' rule: exoplanets_loop.induct)
  case (1 L star n j ps s)
  show ?case
  proof (cases "j < n")
    case False
    then show ?thesis
      using "1.prems" by (simp add: exoplanets_loop.simps [of _ _ n j] obs_def)
  next
    case True
    have o: "obs strip_exoplanet (generateExoplanet L star (j + 1) s) =
             obs strip_exoplanet (generateExoplanet L star' (j + 1) s')"
      using sim_generateExoplanet [OF "1.prems"(1)] "1.prems"(3) by (rule simD)
    show ?thesis
    proof (cases "generateExoplanet L star (j + 1) s")
      case (Inl e)
      from obs_Inl [OF o Inl] Inl True show ?thesis
        by (simp add: exoplanets_loop.simps [of _ _ n j] obs_def)
    next
      case (Inr x)
      obtain p s1 where x: "x = (p, s1)" by (cases x)
      from obs_Inr [OF o Inr [unfolded x]] obtain p' s1' where
        y: "generateExoplanet L star' (j + 1) s' = Inr (p', s1')"
           "strip_exoplanet p = strip_exoplanet p'" "fst s1 = fst s1'" by blast
      have "obs (map strip_exoplanet) (exoplanets_loop L star n (j + 1) (ps @ [p]) s1) =
            obs (map strip_exoplanet) (exoplanets_loop L star' n (j + 1) (ps' @ [p']) s1')"
        using "1.prems"(2) y(2) by (intro "1.IH" [OF True Inr x [symmetric] "1.prems"(1) _ y(3)]) simp
      then show ?thesis
        using True Inr x y(1) by (simp add: exoplanets_loop.simps [of _ _ n j])
    qed
  qed
qed

lemma sim_planets_loop:
  "strip_star star = strip_star star' \<Longrightarrow> map strip_planet ps = map strip_planet ps' \<Longrightarrow>
     sim (map strip_planet) (planets_loop L star n j ps) (planets_loop L star' n j ps')"
  unfolding sim_def by (blast intro: planets_loop_obs)

lemma sim_exoplanets_loop:
  "strip_star star = strip_star star' \<Longrightarrow> map strip_exoplanet ps = map strip_exoplanet ps' \<Longrightarrow>
     sim (map strip_exoplanet) (exoplanets_loop L star n j ps) (exoplanets_loop L star' n j ps')"
  unfolding sim_def by (blast intro: exoplanets_loop_obs)

lemma strip_data_eq:
  assumes "strip_data d = strip_data d'"
  shows "map strip_star (Stars d) = map strip_star (Stars d')"
    "map strip_planet (Planets d) = map strip_planet (Planets d')"
    "map strip_exoplanet (Exoplanets d) = map strip_exoplanet (Exoplanets d')"
  using assms by (simp_all add: strip_data_def)

lemma sim_star_step:
  assumes "strip_data d = strip_data d'"
  shows "sim strip_data (star_step L cfg i d) (star_step L cfg i d')"
  unfolding star_step_def
  apply (rule sim_and_then, rule sim_generateStar)
  apply (rule sim_and_then_id, rule sim_Intn)
  apply (rule sim_and_then, rule sim_planets_loop, assumption, rule strip_data_eq(2) [OF assms])
  apply (rule sim_and_then_id, rule sim_Intn)
  apply (rule sim_and_then, rule sim_exoplanets_loop, assumption, rule strip_data_eq(3) [OF assms])
  apply (rule sim_ret)
  apply (simp add: strip_data_def strip_data_eq(1) [OF assms])
  done

lemma stars_loop_obs:
  assumes "strip_data d = strip_data d'" "fst s = fst s'"
  shows "obs strip_data (stars_loop L cfg i d s) = obs strip_data (stars_loop L cfg i d' s')"
  using assms
proof (induction L cfg i d s arbitrary: d' s' rule: stars_loop.induct)
  case (1 L cfg i d s)
  show ?case
  proof (cases "i < NumStars cfg")
    case False
    then show ?thesis
      using "1.prems" by (simp add: stars_loop.simps [of _ _ i] obs_def)
  next
    case True
    have o: "obs strip_data (star_step L cfg i d s) = obs strip_data (star_step L cfg i d' s')"
      using sim_star_step [OF "1.prems"(1)] "1.prems"(2) by (rule simD)
    show ?thesis
    proof (cases "star_step L cfg i d s")
      case (Inl e)
      from obs_Inl [OF o Inl] Inl True show ?thesis
        by (simp add: stars_loop.simps [of _ _ i] obs_def)
    next
      case (Inr x)
      obtain d1 s1 where x: "x = (d1, s1)" by (cases x)
      from obs_Inr [OF o Inr [unfolded x]] obtain d1' s1' where
        y: "star_step L cfg i d' s' = Inr (d1', s1')" "strip_data d1 = strip_data d1'"
           "fst s1 = fst s1'" by blast
      have "obs strip_data (stars_loop L cfg (i + 1) d1 s1) =
            obs strip_data (stars_loop L cfg (i + 1) d1' s1')"
        by (rule "1.IH" [OF True Inr x [symmetric] y(2) y(3)])
      then show ?thesis
        using True Inr x y(1) by (simp add: stars_loop.simps [of _ _ i])
    qed
  qed
qed

lemma GenerateAll_strip:
  "map_sum id strip_data (GenerateAll L u cfg) = map_sum id strip_data (GenerateAll L u' cfg)"
proof (cases "NumStars cfg < 0")
  case True
  then show ?thesis by (simp add: GenerateAll_def)
next
  case False
  let ?e = "\<lparr>Stars = [], Planets = [], Exoplanets = []\<rparr>"
  let ?r = "rand_New L (Seed cfg)"
  have o: "obs strip_data (stars_loop L cfg 0 ?e (?r, u)) =
           obs strip_data (stars_loop L cfg 0 ?e (?r, u'))"
    by (rule stars_loop_obs) simp_all
  show ?thesis
  proof (cases "stars_loop L cfg 0 ?e (?r, u)")
    case (Inl e)
    from obs_Inl [OF o Inl] Inl False show ?thesis by (simp add: GenerateAll_def)
  next
    case (Inr x)
    obtain d s where x: "x = (d, s)" by (cases x)
    from obs_Inr [OF o Inr [unfolded x]] obtain d' s' where
      "stars_loop L cfg 0 ?e (?r, u') = Inr (d', s')" "strip_data d = strip_data d'" by blast
    with Inr x False show ?thesis by (simp add: GenerateAll_def)
  qed
qed

section \<open>Overflow of a cap\<close>

text \<open>
  With a cap equal to the greatest \<^verbatim>\<open>int\<close> the sum \<^verbatim>\<open>cap + 1\<close> wraps to the least
  one, and \<^verbatim>\<open>Intn\<close> panics in the first pass of the outer loop.
\<close>

lemma star_step_cap_overflow:
  assumes "rand_contract L" "PlanetsPerStar cfg = 2 ^ 63 - 1"
  shows "star_step L cfg i d s = Inl (Panic ''invalid argument to Intn'')"
proof -
  from post_returns [OF generateStar_post [OF assms(1), of "i + 1" s]]
  obtain star s1 where g: "generateStar L (i + 1) s = Inr (star, s1)" by blast
  have w: "int64_wrap (PlanetsPerStar cfg + 1) = - (2 ^ 63)"
    using assms(2) by (simp add: int64_wrap_def)
  show ?thesis
    using g by (simp add: star_step_def and_then_def Intn_def w)
qed

lemma GenerateAll_cap_overflow:
  assumes "rand_contract L" "0 < NumStars cfg" "PlanetsPerStar cfg = 2 ^ 63 - 1"
  shows "GenerateAll L u cfg = Inl (Panic ''invalid argument to Intn'')"
  using assms(2) star_step_cap_overflow [OF assms(1,3)]
  by (simp add: GenerateAll_def stars_loop.simps [of L cfg 0])

section \<open>Claims\<close>

text \<open>
  C1, as amended.  Two calls of \<^verbatim>\<open>GenerateAll\<close> with the same configuration, the
  seed included, have the same outcome up to the identifier fields: either both panic
  with the same message, or both return, and then the stars, planets and exoplanets are
  the same in number and in order and agree in every field other than \<^verbatim>\<open>ID\<close> and
  \<^verbatim>\<open>StarID\<close>.  The calls differ in the states \<open>u\<close> and \<open>u'\<close> in which they find
  the entropy source of \<^verbatim>\<open>uuid.New()\<close>.
\<close>

theorem GenerateAll_reproducible:
  "map_sum id strip_data (GenerateAll L u cfg) = map_sum id strip_data (GenerateAll L u' cfg)"
  by (rule GenerateAll_strip)

text \<open>
  C1 as stated fails on the identifiers: two calls with one configuration that find the
  entropy source in different states return stars with different \<^verbatim>\<open>ID\<close>.
\<close>

theorem GenerateAll_identifiers_counterexample:
  "GenerateAll example_lib 0 \<lparr>NumStars = 1, PlanetsPerStar = 0, ExoPerStar = 0, Seed = 12345\<rparr> =
     Inr \<lparr>Stars = [\<lparr>Star.ID = ''0'', Star.Name = ''Star-1'', SpectralType = ''G2V'',
                     Star.Mass = 0.92, Star.Radius = 1.055, Temperature = 5300\<rparr>],
          Planets = [], Exoplanets = []\<rparr> \<and>
   GenerateAll example_lib 1 \<lparr>NumStars = 1, PlanetsPerStar = 0, ExoPerStar = 0, Seed = 12345\<rparr> =
     Inr \<lparr>Stars = [\<lparr>Star.ID = ''1'', Star.Name = ''Star-1'', SpectralType = ''G2V'',
                     Star.Mass = 0.92, Star.Radius = 1.055, Temperature = 5300\<rparr>],
          Planets = [], Exoplanets = []\<rparr>"
  by (simp add: example_lib_def eval_defs)



text \<open>
  C3.  Every planet and every exoplanet of a result set that \<^verbatim>\<open>GenerateAll\<close> returns
  carries a \<^verbatim>\<open>StarID\<close> that is the \<^verbatim>\<open>ID\<close> of a star in the \<^verbatim>\<open>Stars\<close>
  sequence of the same result set.
\<close>

theorem GenerateAll_referential_integrity:
  assumes "rand_contract L" and "GenerateAll L u cfg = Inr d"
  shows "(\<forall>p\<in>set (Planets d). \<exists>s\<in>set (Stars d). Star.ID s = Planet.StarID p) \<and>
         (\<forall>e\<in>set (Exoplanets d). \<exists>s\<in>set (Stars d). Star.ID s = Exoplanet.StarID e)"
proof -
  have ok: "data_ok d" using assms by (rule GenerateAll_data_ok)
  show ?thesis
    using data_ok_planet [OF ok] data_ok_exoplanet [OF ok] by blast
qed

theorem GenerateAll_referential_integrity_witness:
  "rand_contract example_lib \<and>
   (\<exists>d. GenerateAll example_lib 0 example_cfg = Inr d \<and>
        length (Planets d) = 1 \<and> length (Exoplanets d) = 1 \<and>
        (\<forall>p\<in>set (Planets d). \<exists>s\<in>set (Stars d). Star.ID s = Planet.StarID p) \<and>
        (\<forall>e\<in>set (Exoplanets d). \<exists>s\<in>set (Stars d). Star.ID s = Exoplanet.StarID e))"
proof -
  from example_run obtain d where d: "GenerateAll example_lib 0 example_cfg = Inr d"
    "length (Planets d) = 1" "length (Exoplanets d) = 1" by blast
  from GenerateAll_referential_integrity [OF example_contract d(1)] d example_contract
  show ?thesis by blast
qed

text \<open>
  C4.  For every planet and every exoplanet of a result set of \<^verbatim>\<open>GenerateAll\<close>, the
  stored \<^verbatim>\<open>OrbitalPeriod\<close> is \<open>365.25 * sqrt (SemiMajorAxis^3 / M)\<close>, where \<open>M\<close>
  is the stored \<^verbatim>\<open>Mass\<close> of the star of the result set the body was generated for,
  whose \<^verbatim>\<open>ID\<close> the body carries as \<^verbatim>\<open>StarID\<close>.  When the identifiers of the stars
  are pairwise distinct, that is the only star with this identifier.
\<close>

theorem GenerateAll_kepler:
  assumes "rand_contract L" and "GenerateAll L u cfg = Inr d"
  shows "(\<forall>p\<in>set (Planets d). \<exists>s\<in>set (Stars d). Star.ID s = Planet.StarID p \<and>
            Planet.OrbitalPeriod p = 365.25 * sqrt (Planet.SemiMajorAxis p ^ 3 / Star.Mass s)) \<and>
         (\<forall>e\<in>set (Exoplanets d). \<exists>s\<in>set (Stars d). Star.ID s = Exoplanet.StarID e \<and>
            Exoplanet.OrbitalPeriod e = 365.25 * sqrt (Exoplanet.SemiMajorAxis e ^ 3 / Star.Mass s)) \<and>
         (distinct (map Star.ID (Stars d)) \<longrightarrow>
            (\<forall>p\<in>set (Planets d). \<forall>s\<in>set (Stars d). Star.ID s = Planet.StarID p \<longrightarrow>
               Planet.OrbitalPeriod p = 365.25 * sqrt (Planet.SemiMajorAxis p ^ 3 / Star.Mass s)) \<and>
            (\<forall>e\<in>set (Exoplanets d). \<forall>s\<in>set (Stars d). Star.ID s = Exoplanet.StarID e \<longrightarrow>
               Exoplanet.OrbitalPeriod e = 365.25 * sqrt (Exoplanet.SemiMajorAxis e ^ 3 / Star.Mass s)))"
proof -
  have ok: "data_ok d" using assms by (rule GenerateAll_data_ok)
  have P: "\<exists>s\<in>set (Stars d). Star.ID s = Planet.StarID p \<and>
            Planet.OrbitalPeriod p = 365.25 * sqrt (Planet.SemiMajorAxis p ^ 3 / Star.Mass s)"
    if "p \<in> set (Planets d)" for p
    using data_ok_planet [OF ok that] planet_of_derived(1) by blast
  have E: "\<exists>s\<in>set (Stars d). Star.ID s = Exoplanet.StarID e \<and>
            Exoplanet.OrbitalPeriod e = 365.25 * sqrt (Exoplanet.SemiMajorAxis e ^ 3 / Star.Mass s)"
    if "e \<in> set (Exoplanets d)" for e
    using data_ok_exoplanet [OF ok that] exoplanet_of_derived(1) by blast
  have P': "Planet.OrbitalPeriod p = 365.25 * sqrt (Planet.SemiMajorAxis p ^ 3 / Star.Mass s)"
    if "distinct (map Star.ID (Stars d))" "p \<in> set (Planets d)" "s \<in> set (Stars d)"
      "Star.ID s = Planet.StarID p" for p s
  proof -
    from P [OF that(2)] obtain s' where s': "s' \<in> set (Stars d)" "Star.ID s' = Planet.StarID p"
      "Planet.OrbitalPeriod p = 365.25 * sqrt (Planet.SemiMajorAxis p ^ 3 / Star.Mass s')" by blast
    have "s = s'" using unique_parent [OF that(1,3) s'(1)] that(4) s'(2) by simp
    with s'(3) show ?thesis by simp
  qed
  have E': "Exoplanet.OrbitalPeriod e = 365.25 * sqrt (Exoplanet.SemiMajorAxis e ^ 3 / Star.Mass s)"
    if "distinct (map Star.ID (Stars d))" "e \<in> set (Exoplanets d)" "s \<in> set (Stars d)"
      "Star.ID s = Exoplanet.StarID e" for e s
  proof -
    from E [OF that(2)] obtain s' where s': "s' \<in> set (Stars d)" "Star.ID s' = Exoplanet.StarID e"
      "Exoplanet.OrbitalPeriod e = 365.25 * sqrt (Exoplanet.SemiMajorAxis e ^ 3 / Star.Mass s')" by blast
    have "s = s'" using unique_parent [OF that(1,3) s'(1)] that(4) s'(2) by simp
    with s'(3) show ?thesis by simp
  qed
  show ?thesis using P E P' E' by blast
qed


theorem GenerateAll_kepler_witness:
  "rand_contract example_lib \<and>
   (\<exists>d. GenerateAll example_lib 0 example_cfg = Inr d \<and>
        length (Planets d) = 1 \<and> length (Exoplanets d) = 1 \<and>
        (\<forall>p\<in>set (Planets d). \<exists>s\<in>set (Stars d). Star.ID s = Planet.StarID p \<and>
            Planet.OrbitalPeriod p = 365.25 * sqrt (Planet.SemiMajorAxis p ^ 3 / Star.Mass s)) \<and>
        (\<forall>e\<in>set (Exoplanets d). \<exists>s\<in>set (Stars d). Star.ID s = Exoplanet.StarID e \<and>
            Exoplanet.OrbitalPeriod e = 365.25 * sqrt (Exoplanet.SemiMajorAxis e ^ 3 / Star.Mass s)) \<and>
        distinct (map Star.ID (Stars d)) \<and>
        (\<forall>p\<in>set (Planets d). \<forall>s\<in>set (Stars d). Star.ID s = Planet.StarID p \<longrightarrow>
            Planet.OrbitalPeriod p = 365.25 * sqrt (Planet.SemiMajorAxis p ^ 3 / Star.Mass s)) \<and>
        (\<forall>e\<in>set (Exoplanets d). \<forall>s\<in>set (Stars d). Star.ID s = Exoplanet.StarID e \<longrightarrow>
            Exoplanet.OrbitalPeriod e = 365.25 * sqrt (Exoplanet.SemiMajorAxis e ^ 3 / Star.Mass s)))"
proof -
  from example_run obtain d where d: "GenerateAll example_lib 0 example_cfg = Inr d"
    "length (Planets d) = 1" "length (Exoplanets d) = 1" "distinct (map Star.ID (Stars d))"
    by blast
  from GenerateAll_kepler [OF example_contract d(1)] d example_contract
  show ?thesis by blast
qed

text \<open>
  C5.  In a result set that \<^verbatim>\<open>GenerateAll\<close> returns, every star has \<^verbatim>\<open>Mass\<close>,
  \<^verbatim>\<open>Radius\<close> and \<^verbatim>\<open>Temperature\<close> above zero, and every planet and exoplanet has
  \<^verbatim>\<open>Eccentricity\<close> in \<open>[0, 1)\<close>, \<^verbatim>\<open>Mass\<close>, \<^verbatim>\<open>Radius\<close>, \<^verbatim>\<open>OrbitalPeriod\<close>
  and \<^verbatim>\<open>SemiMajorAxis\<close> above zero, \<^verbatim>\<open>DiscoveryYear\<close> from 1990 to 2024 and
  \<^verbatim>\<open>SurfaceTemp\<close> above zero.
\<close>

theorem GenerateAll_ranges:
  assumes "rand_contract L" and "GenerateAll L u cfg = Inr d"
  shows "(\<forall>s\<in>set (Stars d). 0 < Star.Mass s \<and> 0 < Star.Radius s \<and> 0 < Temperature s) \<and>
         (\<forall>p\<in>set (Planets d).
            0 \<le> Planet.Eccentricity p \<and> Planet.Eccentricity p < 1 \<and>
            0 < Planet.Mass p \<and> 0 < Planet.Radius p \<and> 0 < Planet.OrbitalPeriod p \<and>
            0 < Planet.SemiMajorAxis p \<and>
            1990 \<le> Planet.DiscoveryYear p \<and> Planet.DiscoveryYear p \<le> 2024 \<and>
            0 < Planet.SurfaceTemp p) \<and>
         (\<forall>e\<in>set (Exoplanets d).
            0 \<le> Exoplanet.Eccentricity e \<and> Exoplanet.Eccentricity e < 1 \<and>
            0 < Exoplanet.Mass e \<and> 0 < Exoplanet.Radius e \<and> 0 < Exoplanet.OrbitalPeriod e \<and>
            0 < Exoplanet.SemiMajorAxis e \<and>
            1990 \<le> Exoplanet.DiscoveryYear e \<and> Exoplanet.DiscoveryYear e \<le> 2024 \<and>
            0 < Exoplanet.SurfaceTemp e)"
proof (intro conjI ballI)
  have ok: "data_ok d" using assms by (rule GenerateAll_data_ok)
  {
    fix s assume "s \<in> set (Stars d)"
    with ok have "star_ok s" by (simp add: data_ok_def)
    then show "0 < Star.Mass s" "0 < Star.Radius s" "0 < Temperature s"
      by (simp_all add: star_ok_def)
  next
    fix p assume "p \<in> set (Planets d)"
    from data_ok_planet [OF ok this] obtain s where s: "star_ok s" "planet_of s p" by blast
    from planet_of_derived(2,4) [OF s]
    show "0 < Planet.OrbitalPeriod p" "0 < Planet.SurfaceTemp p" .
    from s(2)
    show "0 \<le> Planet.Eccentricity p" "Planet.Eccentricity p < 1" "0 < Planet.Mass p"
      "0 < Planet.Radius p" "0 < Planet.SemiMajorAxis p"
      "1990 \<le> Planet.DiscoveryYear p" "Planet.DiscoveryYear p \<le> 2024"
      by (simp_all add: planet_of_def)
  next
    fix e assume "e \<in> set (Exoplanets d)"
    from data_ok_exoplanet [OF ok this] obtain s where s: "star_ok s" "exoplanet_of s e" by blast
    from exoplanet_of_derived(2,4) [OF s]
    show "0 < Exoplanet.OrbitalPeriod e" "0 < Exoplanet.SurfaceTemp e" .
    from s(2)
    show "0 \<le> Exoplanet.Eccentricity e" "Exoplanet.Eccentricity e < 1" "0 < Exoplanet.Mass e"
      "0 < Exoplanet.Radius e" "0 < Exoplanet.SemiMajorAxis e"
      "1990 \<le> Exoplanet.DiscoveryYear e" "Exoplanet.DiscoveryYear e \<le> 2024"
      by (simp_all add: exoplanet_of_def)
  }
qed

theorem GenerateAll_ranges_witness:
  "rand_contract example_lib \<and>
   (\<exists>d. GenerateAll example_lib 0 example_cfg = Inr d \<and>
        length (Stars d) = 1 \<and> length (Planets d) = 1 \<and> length (Exoplanets d) = 1 \<and>
        (\<forall>s\<in>set (Stars d). 0 < Star.Mass s \<and> 0 < Star.Radius s \<and> 0 < Temperature s) \<and>
        (\<forall>p\<in>set (Planets d).
            0 \<le> Planet.Eccentricity p \<and> Planet.Eccentricity p < 1 \<and>
            0 < Planet.Mass p \<and> 0 < Planet.Radius p \<and> 0 < Planet.OrbitalPeriod p \<and>
            0 < Planet.SemiMajorAxis p \<and>
            1990 \<le> Planet.DiscoveryYear p \<and> Planet.DiscoveryYear p \<le> 2024 \<and>
            0 < Planet.SurfaceTemp p) \<and>
        (\<forall>e\<in>set (Exoplanets d).
            0 \<le> Exoplanet.Eccentricity e \<and> Exoplanet.Eccentricity e < 1 \<and>
            0 < Exoplanet.Mass e \<and> 0 < Exoplanet.Radius e \<and> 0 < Exoplanet.OrbitalPeriod e \<and>
            0 < Exoplanet.SemiMajorAxis e \<and>
            1990 \<le> Exoplanet.DiscoveryYear e \<and> Exoplanet.DiscoveryYear e \<le> 2024 \<and>
            0 < Exoplanet.SurfaceTemp e))"
proof -
  from example_run obtain d where d: "GenerateAll example_lib 0 example_cfg = Inr d"
    "length (Stars d) = 1" "length (Planets d) = 1" "length (Exoplanets d) = 1" by blast
  from GenerateAll_ranges [OF example_contract d(1)] d example_contract
  show ?thesis by blast
qed









text \<open>
  C9.  For \<^verbatim>\<open>NumStars = 10\<close>, \<^verbatim>\<open>PlanetsPerStar = 5\<close>, \<^verbatim>\<open>ExoPerStar = 3\<close> and
  seed \<open>12345\<close>, \<^verbatim>\<open>GenerateAll\<close> returns exactly 10 stars, at most 50 planets and at
  most 30 exoplanets, and a second call with the same configuration returns a first star
  with the same name, mass and spectral type as the first star of the first call.
\<close>

theorem GenerateAll_scenario:
  assumes "rand_contract L"
  shows "\<exists>d d'.
           GenerateAll L u \<lparr>NumStars = 10, PlanetsPerStar = 5, ExoPerStar = 3, Seed = 12345\<rparr> = Inr d \<and>
           GenerateAll L u' \<lparr>NumStars = 10, PlanetsPerStar = 5, ExoPerStar = 3, Seed = 12345\<rparr> = Inr d' \<and>
           length (Stars d) = 10 \<and> length (Planets d) \<le> 50 \<and> length (Exoplanets d) \<le> 30 \<and>
           Stars d \<noteq> [] \<and> Stars d' \<noteq> [] \<and>
           Star.Name (hd (Stars d')) = Star.Name (hd (Stars d)) \<and>
           Star.Mass (hd (Stars d')) = Star.Mass (hd (Stars d)) \<and>
           SpectralType (hd (Stars d')) = SpectralType (hd (Stars d))"
proof -
  let ?cfg = "\<lparr>NumStars = 10, PlanetsPerStar = 5, ExoPerStar = 3, Seed = 12345\<rparr>"
  have w: "0 < int64_wrap (PlanetsPerStar ?cfg + 1) \<and> 0 < int64_wrap (ExoPerStar ?cfg + 1)"
    by (simp add: int64_wrap_def)
  from GenerateAll_returns [OF assms, of ?cfg u] w obtain d where
    d: "GenerateAll L u ?cfg = Inr d" by auto
  from GenerateAll_returns [OF assms, of ?cfg u'] w obtain d' where
    d': "GenerateAll L u' ?cfg = Inr d'" by auto
  from GenerateAll_count_ok [OF assms _ _ d] have c: "count_ok ?cfg 10 d" by simp
  from GenerateAll_count_ok [OF assms _ _ d'] have c': "count_ok ?cfg 10 d'" by simp
  have n: "length (Stars d) = 10" "length (Planets d) \<le> 50" "length (Exoplanets d) \<le> 30"
    using c by (simp_all add: count_ok_def)
  have n': "length (Stars d') = 10" using c' by (simp add: count_ok_def)
  have ne: "Stars d \<noteq> []" "Stars d' \<noteq> []" using n(1) n' by auto
  from GenerateAll_strip [of L u ?cfg u'] d d' have "strip_data d = strip_data d'" by simp
  then have "map strip_star (Stars d) = map strip_star (Stars d')" by (rule strip_data_eq)
  then have "hd (map strip_star (Stars d)) = hd (map strip_star (Stars d'))" by simp
  then have "strip_star (hd (Stars d)) = strip_star (hd (Stars d'))"
    using ne by (simp add: hd_map)
  from strip_star_eq [OF this] d d' n ne show ?thesis by auto
qed

theorem GenerateAll_scenario_witness:
  "rand_contract example_lib \<and>
   (\<exists>d d'.
      GenerateAll example_lib 0 \<lparr>NumStars = 10, PlanetsPerStar = 5, ExoPerStar = 3, Seed = 12345\<rparr> = Inr d \<and>
      GenerateAll example_lib 1 \<lparr>NumStars = 10, PlanetsPerStar = 5, ExoPerStar = 3, Seed = 12345\<rparr> = Inr d' \<and>
      length (Stars d) = 10 \<and> length (Planets d) \<le> 50 \<and> length (Exoplanets d) \<le> 30 \<and>
      Stars d \<noteq> [] \<and> Stars d' \<noteq> [] \<and>
      Star.Name (hd (Stars d')) = Star.Name (hd (Stars d)) \<and>
      Star.Mass (hd (Stars d')) = Star.Mass (hd (Stars d)) \<and>
      SpectralType (hd (Stars d')) = SpectralType (hd (Stars d)))"
  using GenerateAll_scenario [OF example_contract, of 0 1] example_contract by simp

text \<open>
  C10, as amended.  With \<^verbatim>\<open>NumStars = 0\<close> the call returns the empty result set,
  whatever the seed, the two caps (negative ones too), the library and its state: the
  loop body is not entered and nothing is drawn.  With a negative \<^verbatim>\<open>NumStars\<close>
  the allocation of \<^verbatim>\<open>data.Stars\<close> panics and nothing is returned.
\<close>

theorem GenerateAll_no_stars:
  "(NumStars cfg = 0 \<longrightarrow>
      GenerateAll L u cfg = Inr \<lparr>Stars = [], Planets = [], Exoplanets = []\<rparr>) \<and>
   (NumStars cfg < 0 \<longrightarrow>
      GenerateAll L u cfg = Inl (Panic ''makeslice: cap out of range''))"
  by (simp add: GenerateAll_def stars_loop.simps)

theorem GenerateAll_no_stars_witness:
  "GenerateAll example_lib 7
     \<lparr>NumStars = 0, PlanetsPerStar = - 5, ExoPerStar = - 1, Seed = 42\<rparr> =
     Inr \<lparr>Stars = [], Planets = [], Exoplanets = []\<rparr> \<and>
   GenerateAll example_lib 7
     \<lparr>NumStars = - 3, PlanetsPerStar = 2, ExoPerStar = 2, Seed = 42\<rparr> =
     Inl (Panic ''makeslice: cap out of range'')"
  using GenerateAll_no_stars [of "\<lparr>NumStars = 0, PlanetsPerStar = - 5, ExoPerStar = - 1, Seed = 42\<rparr>" example_lib 7]
    GenerateAll_no_stars [of "\<lparr>NumStars = - 3, PlanetsPerStar = 2, ExoPerStar = 2, Seed = 42\<rparr>" example_lib 7]
  by simp

text \<open>
  C10 as stated fails for a negative \<^verbatim>\<open>NumStars\<close>: the call with
  \<^verbatim>\<open>NumStars = -1\<close> panics.
\<close>

theorem GenerateAll_negative_stars_counterexample:
  "GenerateAll example_lib 0
     \<lparr>NumStars = - 1, PlanetsPerStar = 0, ExoPerStar = 0, Seed = 0\<rparr> =
     Inl (Panic ''makeslice: cap out of range'')"
  by (simp add: GenerateAll_def)

end
